theory Spec2Isabelle
  imports Complex_Main "HOL-Library.AList" "HOL-Library.Signed_Division" "HOL-Library.Monad_Syntax"
begin

section \<open>JavaScript numbers and strings\<close>

text \<open>
  Timestamps, priorities and counts are integers; finite quantities are real numbers
  (rounding of IEEE doubles is not modelled).  Where the source divides by a quantity
  that may be zero, or computes with a value that may not be a number, the result is a
  \<open>number\<close>: a finite real, one of the two infinities, or NaN.  The operations below follow the ECMAScript tables for \<open>/\<close>,
  \<open>-\<close>, \<open>+\<close>, \<open>*\<close>, \<open>Math.max\<close>, \<open><\<close> and \<open><=\<close>; zero is unsigned (a zero
  divisor is taken as the positive zero).
\<close>

datatype number = Num real | PosInfinity | NegInfinity | NaN

fun num_div :: "number \<Rightarrow> number \<Rightarrow> number" where
  "num_div NaN _ = NaN"
| "num_div _ NaN = NaN"
| "num_div (Num a) (Num b) =
     (if b \<noteq> 0 then Num (a / b)
      else if a = 0 then NaN
      else if 0 < a then PosInfinity else NegInfinity)"
| "num_div (Num a) _ = Num 0"
| "num_div PosInfinity (Num b) = (if 0 \<le> b then PosInfinity else NegInfinity)"
| "num_div NegInfinity (Num b) = (if 0 \<le> b then NegInfinity else PosInfinity)"
| "num_div _ _ = NaN"

fun num_mul :: "number \<Rightarrow> number \<Rightarrow> number" where
  "num_mul NaN _ = NaN"
| "num_mul _ NaN = NaN"
| "num_mul (Num a) (Num b) = Num (a * b)"
| "num_mul (Num a) PosInfinity =
     (if a = 0 then NaN else if 0 < a then PosInfinity else NegInfinity)"
| "num_mul (Num a) NegInfinity =
     (if a = 0 then NaN else if 0 < a then NegInfinity else PosInfinity)"
| "num_mul PosInfinity (Num b) =
     (if b = 0 then NaN else if 0 < b then PosInfinity else NegInfinity)"
| "num_mul NegInfinity (Num b) =
     (if b = 0 then NaN else if 0 < b then NegInfinity else PosInfinity)"
| "num_mul PosInfinity PosInfinity = PosInfinity"
| "num_mul NegInfinity NegInfinity = PosInfinity"
| "num_mul _ _ = NegInfinity"

fun num_add :: "number \<Rightarrow> number \<Rightarrow> number" where
  "num_add NaN _ = NaN"
| "num_add _ NaN = NaN"
| "num_add (Num a) (Num b) = Num (a + b)"
| "num_add (Num a) y = y"
| "num_add x (Num b) = x"
| "num_add PosInfinity PosInfinity = PosInfinity"
| "num_add NegInfinity NegInfinity = NegInfinity"
| "num_add _ _ = NaN"

fun num_neg :: "number \<Rightarrow> number" where
  "num_neg (Num a) = Num (- a)"
| "num_neg PosInfinity = NegInfinity"
| "num_neg NegInfinity = PosInfinity"
| "num_neg NaN = NaN"

definition num_sub :: "number \<Rightarrow> number \<Rightarrow> number" where
  "num_sub x y = num_add x (num_neg y)"

fun num_lt :: "number \<Rightarrow> number \<Rightarrow> bool" where
  "num_lt NaN _ = False"
| "num_lt _ NaN = False"
| "num_lt (Num a) (Num b) = (a < b)"
| "num_lt NegInfinity NegInfinity = False"
| "num_lt NegInfinity _ = True"
| "num_lt PosInfinity _ = False"
| "num_lt (Num a) PosInfinity = True"
| "num_lt (Num a) NegInfinity = False"

text \<open>\<open>x <= y\<close>: false when either side is NaN.\<close>

definition num_le :: "number \<Rightarrow> number \<Rightarrow> bool" where
  "num_le x y = (x \<noteq> NaN \<and> y \<noteq> NaN \<and> \<not> num_lt y x)"

text \<open>\<open>Math.max(x, y)\<close>: NaN when either argument is NaN, else the larger one.\<close>

fun num_max :: "number \<Rightarrow> number \<Rightarrow> number" where
  "num_max NaN _ = NaN"
| "num_max _ NaN = NaN"
| "num_max x y = (if num_lt x y then y else x)"

text \<open>\<open>Math.sqrt\<close>: NaN below zero.\<close>

fun num_sqrt :: "number \<Rightarrow> number" where
  "num_sqrt (Num a) = (if a < 0 then NaN else Num (sqrt a))"
| "num_sqrt PosInfinity = PosInfinity"
| "num_sqrt _ = NaN"

text \<open>A number that is finite or NaN.\<close>

definition notInfinite :: "number \<Rightarrow> bool" where
  "notInfinite x = (x \<noteq> PosInfinity \<and> x \<noteq> NegInfinity)"

text \<open>The sum of a list of numbers, from zero.\<close>

primrec num_sum :: "number list \<Rightarrow> number" where
  "num_sum [] = Num 0"
| "num_sum (x # xs) = num_add x (num_sum xs)"

text \<open>
  The remainder operator \<open>%\<close> truncates towards zero (the result has the sign of the
  dividend): on integers it is \<open>smod\<close>; on reals it is \<open>js_rem\<close>.
\<close>

definition js_trunc :: "real \<Rightarrow> int" where
  "js_trunc x = (if 0 \<le> x then \<lfloor>x\<rfloor> else \<lceil>x\<rceil>)"

definition js_rem :: "real \<Rightarrow> real \<Rightarrow> real" where
  "js_rem a b = a - b * of_int (js_trunc (a / b))"

text \<open>
  Template literals print an integer in decimal.  (Exponent notation, which JavaScript
  switches to from \<open>10\<^sup>2\<^sup>1\<close> on, is not modelled.)
\<close>

definition digit_char :: "nat \<Rightarrow> char" where
  "digit_char d = ''0123456789'' ! d"

fun show_nat :: "nat \<Rightarrow> string" where
  "show_nat n = (if n < 10 then [digit_char n] else show_nat (n div 10) @ [digit_char (n mod 10)])"

definition show_int :: "int \<Rightarrow> string" where
  "show_int i = (if i < 0 then CHR ''-'' # show_nat (nat (- i)) else show_nat (nat i))"

text \<open>
  \<open>String.prototype.toLowerCase\<close> on the ASCII letters; no other character lowers to a
  letter of the table keys used below.
\<close>

definition toLowerChar :: "char \<Rightarrow> char" where
  "toLowerChar c =
     (case map_of (zip ''ABCDEFGHIJKLMNOPQRSTUVWXYZ'' ''abcdefghijklmnopqrstuvwxyz'') c of
        None \<Rightarrow> c
      | Some l \<Rightarrow> l)"

definition toLowerCase :: "string \<Rightarrow> string" where
  "toLowerCase s = map toLowerChar s"

subsection \<open>Values and object literals\<close>

text \<open>
  What a property read on an object literal can give: a number, one of the built-in
  objects of \<open>Object.prototype\<close> (named here by their path), or \<open>undefined\<close>.
\<close>

datatype jsvalue = Number real | BuiltinObject string | Undefined

text \<open>\<open>ToNumber\<close>, as the arithmetic operators apply it: an object or function and
  \<open>undefined\<close> give NaN.\<close>

fun toNumber :: "jsvalue \<Rightarrow> number" where
  "toNumber (Number r) = Num r"
| "toNumber (BuiltinObject _) = NaN"
| "toNumber Undefined = NaN"

text \<open>
  The properties every object literal inherits from \<open>Object.prototype\<close>:
  \<open>constructor\<close> is the function \<open>Object\<close>, \<open>__proto__\<close> reads the prototype itself, the
  others are its methods.
\<close>

definition objectPrototype :: "string \<Rightarrow> jsvalue" where
  "objectPrototype key =
     (if key = ''constructor'' then BuiltinObject ''Object''
      else if key = ''__proto__'' then BuiltinObject ''Object.prototype''
      else if key \<in> set [''hasOwnProperty'', ''isPrototypeOf'', ''propertyIsEnumerable'',
                          ''toLocaleString'', ''toString'', ''valueOf'',
                          ''__defineGetter__'', ''__defineSetter__'',
                          ''__lookupGetter__'', ''__lookupSetter__'']
      then BuiltinObject (''Object.prototype.'' @ key)
      else Undefined)"

text \<open>
  \<open>table[key]\<close> on an object literal with the given entries: an own property first, an
  inherited one otherwise.
\<close>

definition recordLookup :: "(string \<times> real) list \<Rightarrow> string \<Rightarrow> jsvalue" where
  "recordLookup entries key =
     (case map_of entries key of Some v \<Rightarrow> Number v | None \<Rightarrow> objectPrototype key)"

text \<open>\<open>x || d\<close>: \<open>d\<close> when \<open>x\<close> is falsy (\<open>undefined\<close> or zero), else \<open>x\<close>.\<close>

fun orElse :: "jsvalue \<Rightarrow> real \<Rightarrow> jsvalue" where
  "orElse Undefined d = Number d"
| "orElse (Number r) d = (if r = 0 then Number d else Number r)"
| "orElse (BuiltinObject n) d = BuiltinObject n"

section \<open>Data model (components/BabyAGI)\<close>

datatype TaskStatus = Pending | Executing | Completed

datatype AgentRole = Developer | Designer | Researcher | Manager | Analyst | General

datatype ObjectiveStatus = Active | Paused | ObjectiveCompleted

text \<open>
  A task.  Optional fields are options; \<open>priority\<close> is an option too, since the code
  treats it as possibly missing (\<open>task.priority || 5\<close>) and tasks are built from
  unvalidated responses.  The fields \<open>result\<close>, \<open>estimatedTime\<close>, \<open>parentId\<close> and
  \<open>isCollapsed\<close> are read by none of the functions modelled here and are left out.
\<close>

datatype Task = Task
  (task_id: string)
  (title: string)
  (status: TaskStatus)
  (priority: "int option")
  (createdAt: int)
  (completedAt: "int option")
  (category: "string option")
  (subtasks: "Task list option")

text \<open>
  An objective, with the type of its \<open>tasks\<close> field as a parameter: a list of tasks where
  the objective is read as data, a reference to a task array where it lives in the store
  of the scenario functions.
\<close>

record 'ts Objective =
  obj_id :: string
  obj_title :: string
  description :: string
  tasks :: 'ts
  obj_status :: ObjectiveStatus
  obj_createdAt :: int
  agentRole :: "AgentRole option"

text \<open>Truthiness of the optional values the code tests with \<open>if (x)\<close>, \<open>x && y\<close>, \<open>x || d\<close>.\<close>

definition truthy_int :: "int option \<Rightarrow> bool" where
  "truthy_int x = (case x of None \<Rightarrow> False | Some n \<Rightarrow> n \<noteq> 0)"

definition truthy_string :: "string option \<Rightarrow> bool" where
  "truthy_string x = (case x of None \<Rightarrow> False | Some s \<Rightarrow> s \<noteq> [])"

text \<open>\<open>task.subtasks?.length || 0\<close>\<close>

definition subtaskCount :: "Task \<Rightarrow> nat" where
  "subtaskCount t = (case subtasks t of None \<Rightarrow> 0 | Some ts \<Rightarrow> length ts)"

section \<open>Prediction engine (lib/prediction-utils.ts)\<close>

text \<open>
  An estimated duration is a \<open>number\<close>: the heuristic estimate multiplies by the result of
  a table lookup, which is not always a number.
\<close>

record TaskPrediction =
  estimatedDuration :: number
  confidenceScore :: number
  factors :: "string list"
  similarTaskCount :: nat

datatype RiskLevel = Low | Medium | High

record ObjectivePrediction =
  totalEstimatedTime :: number
  completionDate :: number
  taskPredictions :: "(string \<times> TaskPrediction) list"
  riskLevel :: RiskLevel
  bottlenecks :: "string list"

subsection \<open>Feature extraction\<close>

definition complexityMap :: "(string \<times> real) list" where
  "complexityMap =
     [(''research'', 4), (''planning'', 3), (''execution'', 6),
      (''testing'', 5), (''documentation'', 2), (''optimization'', 7)]"

text \<open>
  \<open>complexityMap[category.toLowerCase()] || 4\<close>.  The table is an object literal, so a
  category that lower-cases to an inherited property name (\<open>constructor\<close>, \<open>__proto__\<close>)
  reads a built-in object, which is truthy and is returned as it is.
\<close>

definition getCategoryComplexity :: "string \<Rightarrow> jsvalue" where
  "getCategoryComplexity c = orElse (recordLookup complexityMap (toLowerCase c)) 4"

text \<open>
  The features are declared as numbers; the third one is whatever
  \<open>getCategoryComplexity\<close> returned.
\<close>

definition extractTaskFeatures :: "Task \<Rightarrow> jsvalue list" where
  "extractTaskFeatures t =
     [ Number (real (length (title t))),
       Number (if truthy_int (priority t) then real_of_int (the (priority t)) else 5),
       (if truthy_string (category t) then getCategoryComplexity (the (category t))
        else Number 3),
       Number (real (subtaskCount t) * 2) ]"

fun multipliers :: "AgentRole \<Rightarrow> real" where
  "multipliers Developer = 0.9"
| "multipliers Designer = 1.1"
| "multipliers Researcher = 1.3"
| "multipliers Manager = 0.8"
| "multipliers Analyst = 1.0"
| "multipliers General = 1.0"

definition getAgentSpeedMultiplier :: "AgentRole option \<Rightarrow> real" where
  "getAgentSpeedMultiplier role =
     multipliers (case role of None \<Rightarrow> General | Some r \<Rightarrow> r)"

subsection \<open>Heuristic estimate\<close>

definition categoryMultipliers :: "(string \<times> real) list" where
  "categoryMultipliers =
     [(''research'', 1.5), (''planning'', 1.2), (''execution'', 1.8),
      (''testing'', 1.4), (''documentation'', 1.0), (''optimization'', 2.0)]"

definition getHeuristicEstimate :: "Task \<Rightarrow> AgentRole option \<Rightarrow> TaskPrediction" where
  "getHeuristicEstimate t role =
     (let baseDuration = Num 180000;
          baseDuration = num_add baseDuration (Num (real (length (title t)) * 50));
          baseDuration =
            (if truthy_int (priority t)
             then num_add baseDuration (Num (real_of_int ((11 - the (priority t)) * 30000)))
             else baseDuration);
          baseDuration =
            (if truthy_string (category t)
             then num_mul baseDuration
               (toNumber
                  (orElse (recordLookup categoryMultipliers (toLowerCase (the (category t))))
                     1.3))
             else baseDuration);
          baseDuration =
            (if subtasks t \<noteq> None \<and> 0 < subtaskCount t
             then num_mul baseDuration (Num (1 + real (subtaskCount t) * 0.3))
             else baseDuration);
          baseDuration = num_mul baseDuration (Num (getAgentSpeedMultiplier role))
      in \<lparr> estimatedDuration = baseDuration,
           confidenceScore = Num 0.4,
           factors = [''Heuristic estimation'', ''Insufficient historical data''],
           similarTaskCount = 0 \<rparr>)"

subsection \<open>Cosine similarity\<close>

text \<open>
  The arithmetic converts each feature with \<open>ToNumber\<close>; a feature that is not a number
  makes the products, the sums and the result NaN.
\<close>

definition calculateSimilarity :: "jsvalue list \<Rightarrow> jsvalue list \<Rightarrow> number" where
  "calculateSimilarity features1 features2 =
     (if length features1 \<noteq> length features2 then Num 0
      else
        let dotProduct =
              foldl (\<lambda>s (f1, f2). num_add s (num_mul (toNumber f1) (toNumber f2))) (Num 0)
                (zip features1 features2);
            magnitude1 =
              num_sqrt (foldl (\<lambda>s f. num_add s (num_mul (toNumber f) (toNumber f))) (Num 0)
                features1);
            magnitude2 =
              num_sqrt (foldl (\<lambda>s f. num_add s (num_mul (toNumber f) (toNumber f))) (Num 0)
                features2)
        in if magnitude1 = Num 0 \<or> magnitude2 = Num 0 then Num 0
           else num_div dotProduct (num_mul magnitude1 magnitude2))"

subsection \<open>Prediction of one task\<close>

text \<open>The filter \<open>t.status === 'completed' && t.completedAt && t.createdAt\<close>.\<close>

definition completedWithTiming :: "Task \<Rightarrow> bool" where
  "completedWithTiming t =
     (status t = Completed \<and> truthy_int (completedAt t) \<and> createdAt t \<noteq> 0)"

text \<open>
  \<open>task.completedAt! - task.createdAt\<close>; it is evaluated on tasks that passed the filter
  above only, so the completion timestamp is there.
\<close>

definition taskDuration :: "Task \<Rightarrow> real" where
  "taskDuration t = real_of_int (the (completedAt t) - createdAt t)"

text \<open>
  The key of the sort \<open>(a, b) => b.similarity - a.similarity\<close>.  The similarities that
  reach the sort passed the test \<open>similarity > 0.3\<close>, so they are not NaN, and a
  similarity is never infinite (the features are finite and the divisor is not zero).
\<close>

fun similarityValue :: "number \<Rightarrow> real" where
  "similarityValue (Num r) = r"
| "similarityValue _ = 0"

text \<open>
  The similar tasks: each completed task paired with its similarity, those above 0.3,
  sorted by decreasing similarity (\<open>Array.prototype.sort\<close> is stable, as is
  \<open>sort_key\<close>), the first ten.
\<close>

definition similarTasks :: "Task \<Rightarrow> Task list \<Rightarrow> (Task \<times> number) list" where
  "similarTasks t completedTasks =
     (let currentFeatures = extractTaskFeatures t
      in take 10
           (sort_key (\<lambda>item. - similarityValue (snd item))
              (filter (\<lambda>item. num_lt (Num 0.3) (snd item))
                 (map (\<lambda>historicalTask.
                         (historicalTask,
                          calculateSimilarity currentFeatures (extractTaskFeatures historicalTask)))
                    completedTasks))))"

definition avgDuration :: "real list \<Rightarrow> real" where
  "avgDuration durations = foldl (+) 0 durations / real (length durations)"

definition stdDev :: "real list \<Rightarrow> real" where
  "stdDev durations =
     sqrt (foldl (\<lambda>s d. s + (d - avgDuration durations)\<^sup>2) 0 durations
           / real (length durations))"

definition sampleConfidence :: "nat \<Rightarrow> real" where
  "sampleConfidence matchCount = min (real matchCount / 10) 1"

definition varianceConfidence :: "real list \<Rightarrow> number" where
  "varianceConfidence durations =
     num_max (Num 0)
       (num_sub (Num 1) (num_div (Num (stdDev durations)) (Num (avgDuration durations))))"

definition predictionFactors :: "Task \<Rightarrow> nat \<Rightarrow> string list" where
  "predictionFactors t matchCount =
     (if truthy_int (priority t) \<and> the (priority t) \<le> 3 then [''High priority''] else [])
     @ (if truthy_string (category t) then [the (category t) @ '' task''] else [])
     @ (if subtasks t \<noteq> None \<and> 0 < subtaskCount t
        then [show_nat (subtaskCount t) @ '' subtasks''] else [])
     @ (if 5 \<le> matchCount then [''Strong historical data''] else [])"

definition predictTaskCompletionTime ::
  "Task \<Rightarrow> Task list \<Rightarrow> AgentRole option \<Rightarrow> TaskPrediction" where
  "predictTaskCompletionTime t historicalTasks role =
     (let completedTasks = filter completedWithTiming historicalTasks
      in if length completedTasks < 3 then getHeuristicEstimate t role
         else
           let similar = similarTasks t completedTasks
           in if length similar = 0 then getHeuristicEstimate t role
              else
                let durations = map (\<lambda>item. taskDuration (fst item)) similar;
                    speedMultiplier = getAgentSpeedMultiplier role
                in \<lparr> estimatedDuration =
                       num_mul (Num (avgDuration durations)) (Num speedMultiplier),
                     confidenceScore =
                       num_div
                         (num_add (Num (sampleConfidence (length similar)))
                                  (varianceConfidence durations))
                         (Num 2),
                     factors = predictionFactors t (length similar),
                     similarTaskCount = length similar \<rparr>)"

subsection \<open>Prediction of an objective\<close>

text \<open>
  The state of the \<open>forEach\<close> loop of \<open>predictObjectiveCompletion\<close>: the four variables
  the callback updates.  \<open>Map.prototype.set\<close> replaces the entry of a key that is already
  there and appends a new one otherwise, as \<open>AList.update\<close> does.
\<close>

record PredictionLoop =
  loop_taskPredictions :: "(string \<times> TaskPrediction) list"
  loop_totalEstimatedTime :: number
  loop_highRiskTasks :: nat
  loop_bottlenecks :: "string list"

text \<open>
  The guard \<open>prediction.confidenceScore < 0.5 || prediction.estimatedDuration > 600000\<close>.
\<close>

definition isHighRisk :: "TaskPrediction \<Rightarrow> bool" where
  "isHighRisk prediction =
     (num_lt (confidenceScore prediction) (Num 0.5)
      \<or> num_lt (Num 600000) (estimatedDuration prediction))"

definition predictEach ::
  "Task list \<Rightarrow> AgentRole option \<Rightarrow> PredictionLoop \<Rightarrow> Task \<Rightarrow> PredictionLoop" where
  "predictEach allHistoricalTasks role st t =
     (let prediction = predictTaskCompletionTime t allHistoricalTasks role;
          st = st
            \<lparr> loop_taskPredictions :=
                AList.update (task_id t) prediction (loop_taskPredictions st),
              loop_totalEstimatedTime :=
                num_add (loop_totalEstimatedTime st) (estimatedDuration prediction) \<rparr>
      in if isHighRisk prediction
         then st
           \<lparr> loop_highRiskTasks := loop_highRiskTasks st + 1,
             loop_bottlenecks :=
               (if num_lt (Num 900000) (estimatedDuration prediction)
                then loop_bottlenecks st @ [title t]
                else loop_bottlenecks st) \<rparr>
         else st)"

definition riskRatio :: "nat \<Rightarrow> nat \<Rightarrow> real" where
  "riskRatio highRiskTasks taskCount = real highRiskTasks / real (max taskCount 1)"

definition riskLevelOf :: "real \<Rightarrow> RiskLevel" where
  "riskLevelOf ratio = (if ratio > 0.5 then High else if ratio > 0.25 then Medium else Low)"

definition predictionLoop :: "(Task list) Objective \<Rightarrow> (Task list) Objective list \<Rightarrow> PredictionLoop" where
  "predictionLoop objective historicalObjectives =
     foldl (predictEach (concat (map tasks historicalObjectives)) (agentRole objective))
       \<lparr> loop_taskPredictions = [], loop_totalEstimatedTime = Num 0,
         loop_highRiskTasks = 0, loop_bottlenecks = [] \<rparr>
       (tasks objective)"

text \<open>
  \<open>now\<close> is the reading of \<open>Date.now()\<close>.  A \<open>Date\<close> holds an integral number of
  milliseconds (the time value is truncated), or NaN when it is built from a number that
  is not finite.
\<close>

definition newDate :: "number \<Rightarrow> number" where
  "newDate x = (case x of Num r \<Rightarrow> Num (real_of_int (js_trunc r)) | _ \<Rightarrow> NaN)"

definition predictObjectiveCompletion ::
  "int \<Rightarrow> (Task list) Objective \<Rightarrow> (Task list) Objective list \<Rightarrow> ObjectivePrediction" where
  "predictObjectiveCompletion now objective historicalObjectives =
     (let st = predictionLoop objective historicalObjectives;
          total = num_mul (loop_totalEstimatedTime st) (Num 1.2)
      in \<lparr> totalEstimatedTime = total,
           completionDate = newDate (num_add (Num (real_of_int now)) total),
           taskPredictions = loop_taskPredictions st,
           riskLevel = riskLevelOf (riskRatio (loop_highRiskTasks st) (length (tasks objective))),
           bottlenecks = take 3 (loop_bottlenecks st) \<rparr>)"

text \<open>The ordinal of a risk level (\<open>riskMap\<close> of \<open>compareScenarios\<close>).\<close>

fun riskMap :: "RiskLevel \<Rightarrow> nat" where
  "riskMap Low = 1"
| "riskMap Medium = 2"
| "riskMap High = 3"

subsection \<open>Formatting a duration (prediction-utils)\<close>

definition formatDuration :: "real \<Rightarrow> string" where
  "formatDuration milliseconds =
     (let seconds = \<lfloor>milliseconds / 1000\<rfloor>;
          minutes = seconds div 60;
          hours = minutes div 60;
          days = hours div 24
      in if days > 0 then show_int days @ ''d '' @ show_int (hours smod 24) @ ''h''
         else if hours > 0 then show_int hours @ ''h '' @ show_int (minutes smod 60) @ ''m''
         else if minutes > 0 then show_int minutes @ ''m''
         else show_int seconds @ ''s'')"

subsection \<open>Velocity\<close>

record Velocity =
  tasksPerDay :: number
  objectivesPerWeek :: number
  avgTaskDuration :: real

text \<open>
  The objectives created since the cutoff date, and their completed tasks with timing
  data (the constants \<open>recentObjectives\<close> and \<open>completedTasks\<close> of
  \<open>calculateVelocity\<close>).
\<close>

definition recentObjectives ::
  "int \<Rightarrow> (Task list) Objective list \<Rightarrow> real \<Rightarrow> (Task list) Objective list" where
  "recentObjectives now objectives days =
     (let cutoffDate = real_of_int now - days * 24 * 60 * 60 * 1000
      in filter (\<lambda>obj. real_of_int (obj_createdAt obj) \<ge> cutoffDate) objectives)"

definition recentCompletedTasks ::
  "int \<Rightarrow> (Task list) Objective list \<Rightarrow> real \<Rightarrow> Task list" where
  "recentCompletedTasks now objectives days =
     concat (map (\<lambda>obj. filter completedWithTiming (tasks obj))
                 (recentObjectives now objectives days))"

text \<open>The parameter \<open>days\<close> has the default 7; \<open>None\<close> is the call without it.\<close>

definition calculateVelocity ::
  "int \<Rightarrow> (Task list) Objective list \<Rightarrow> real option \<Rightarrow> Velocity" where
  "calculateVelocity now objectives daysArg =
     (let days = (case daysArg of None \<Rightarrow> 7 | Some d \<Rightarrow> d);
          completedTasks = recentCompletedTasks now objectives days
      in \<lparr> tasksPerDay = num_div (Num (real (length completedTasks))) (Num days),
           objectivesPerWeek =
             num_mul
               (num_div
                  (Num (real (length
                     (filter (\<lambda>obj. obj_status obj = ObjectiveCompleted)
                        (recentObjectives now objectives days)))))
                  (Num days))
               (Num 7),
           avgTaskDuration =
             (if length completedTasks > 0
              then foldl (\<lambda>sum t. sum + taskDuration t) 0 completedTasks
                   / real (length completedTasks)
              else 0) \<rparr>)"

section \<open>Scenario simulator (lib/scenario-utils.ts)\<close>

subsection \<open>Formatting a duration (scenario-utils)\<close>

definition scenario_formatDuration :: "real \<Rightarrow> string" where
  "scenario_formatDuration ms =
     (let hours = \<lfloor>ms / (1000 * 60 * 60)\<rfloor>;
          minutes = \<lfloor>js_rem ms (1000 * 60 * 60) / (1000 * 60)\<rfloor>
      in if hours > 0 then show_int hours @ ''h '' @ show_int minutes @ ''m''
         else if minutes > 0 then show_int minutes @ ''m''
         else ''<1m'')"

text \<open>The object spread \<open>{ ...task, priority: p }\<close>.\<close>

definition withPriority :: "Task \<Rightarrow> int option \<Rightarrow> Task" where
  "withPriority t p =
     Task (task_id t) (title t) (status t) p (createdAt t) (completedAt t) (category t) (subtasks t)"

subsection \<open>Scenarios in a store\<close>

text \<open>
  The scenario functions build new objects with object spreads and array spreads and
  leave their arguments alone; what they share with their arguments matters.  Objects
  therefore live in a store, a list of objects addressed by position: a reference is an
  index, allocation appends, and an assignment to a field replaces the object at its
  index.  A task object holds the task's own fields (its subtasks by their contents: no
  function here touches a subtask array).
\<close>

type_synonym ref = nat

datatype ModificationType =
  Add_task | Remove_task | Modify_task | Change_role | Change_priority | Reorder_tasks

text \<open>The \<open>details\<close> payloads: \<open>{ task }\<close> and \<open>{ oldPriority, newPriority }\<close>.\<close>

datatype ModificationDetails = TaskDetails ref | PriorityDetails int int

record ScenarioModification =
  mod_type :: ModificationType
  mod_description :: string
  mod_taskId :: "string option"
  details :: ModificationDetails

record Scenario =
  scenario_id :: string
  name :: string
  scenario_description :: string
  baseObjective :: ref
  modifiedObjective :: ref
  prediction :: ref
  scenario_createdAt :: int
  modifications :: ref

datatype object =
    ScenarioObject Scenario
  | ObjectiveObject "ref Objective"
  | TaskArray "ref list"
  | TaskObject Task
  | PredictionObject ObjectivePrediction
  | ModificationArray "ScenarioModification list"

type_synonym store = "object list"

definition alloc :: "store \<Rightarrow> object \<Rightarrow> store \<times> ref" where
  "alloc h obj = (h @ [obj], length h)"

definition getObject :: "store \<Rightarrow> ref \<Rightarrow> object option" where
  "getObject h r = (if r < length h then Some (h ! r) else None)"

definition getScenario :: "store \<Rightarrow> ref \<Rightarrow> Scenario option" where
  "getScenario h r = (case getObject h r of Some (ScenarioObject s) \<Rightarrow> Some s | _ \<Rightarrow> None)"

definition getObjective :: "store \<Rightarrow> ref \<Rightarrow> (ref Objective) option" where
  "getObjective h r = (case getObject h r of Some (ObjectiveObject ob) \<Rightarrow> Some ob | _ \<Rightarrow> None)"

definition getTaskArray :: "store \<Rightarrow> ref \<Rightarrow> (ref list) option" where
  "getTaskArray h r = (case getObject h r of Some (TaskArray rs) \<Rightarrow> Some rs | _ \<Rightarrow> None)"

definition getTask :: "store \<Rightarrow> ref \<Rightarrow> Task option" where
  "getTask h r = (case getObject h r of Some (TaskObject t) \<Rightarrow> Some t | _ \<Rightarrow> None)"

definition getPrediction :: "store \<Rightarrow> ref \<Rightarrow> ObjectivePrediction option" where
  "getPrediction h r = (case getObject h r of Some (PredictionObject p) \<Rightarrow> Some p | _ \<Rightarrow> None)"

definition getModifications :: "store \<Rightarrow> ref \<Rightarrow> (ScenarioModification list) option" where
  "getModifications h r =
     (case getObject h r of Some (ModificationArray ms) \<Rightarrow> Some ms | _ \<Rightarrow> None)"

text \<open>An assignment to a field of the scenario object at \<open>r\<close>.\<close>

definition updateScenario :: "store \<Rightarrow> ref \<Rightarrow> (Scenario \<Rightarrow> Scenario) \<Rightarrow> store option" where
  "updateScenario h r f = do {
     s \<leftarrow> getScenario h r;
     Some (h[r := ScenarioObject (f s)])
   }"

text \<open>The tasks an array of task references holds, read through the store.\<close>

definition readTasks :: "store \<Rightarrow> ref list \<Rightarrow> (Task list) option" where
  "readTasks h rs = those (map (getTask h) rs)"

text \<open>
  The objective at \<open>r\<close> as the prediction engine reads it: its fields, with its task
  array read through the store.
\<close>

definition readObjective :: "store \<Rightarrow> ref \<Rightarrow> ((Task list) Objective) option" where
  "readObjective h r = do {
     ob \<leftarrow> getObjective h r;
     rs \<leftarrow> getTaskArray h (tasks ob);
     ts \<leftarrow> readTasks h rs;
     Some \<lparr> obj_id = obj_id ob, obj_title = obj_title ob, description = description ob,
            tasks = ts, obj_status = obj_status ob, obj_createdAt = obj_createdAt ob,
            agentRole = agentRole ob \<rparr>
   }"

text \<open>
  All that a scenario reference leads to: the scenario's fields, its modified objective
  with the tasks, its prediction and its modification log.
\<close>

record ScenarioContents =
  scenarioFields :: Scenario
  objectiveContents :: "(Task list) Objective"
  predictionContents :: ObjectivePrediction
  modificationLog :: "ScenarioModification list"

definition readScenario :: "store \<Rightarrow> ref \<Rightarrow> ScenarioContents option" where
  "readScenario h r = do {
     s \<leftarrow> getScenario h r;
     ob \<leftarrow> readObjective h (modifiedObjective s);
     p \<leftarrow> getPrediction h (prediction s);
     ms \<leftarrow> getModifications h (modifications s);
     Some \<lparr> scenarioFields = s, objectiveContents = ob, predictionContents = p,
            modificationLog = ms \<rparr>
   }"

subsection \<open>Adding a task\<close>

text \<open>
  \<open>addTaskToScenario(scenario, task, historicalObjectives)\<close>, statement by statement.
  The historical objectives are only read and are passed as data; \<open>now\<close> is the reading
  of \<open>Date.now()\<close> inside \<open>predictObjectiveCompletion\<close>.  The result is \<open>None\<close> when a
  reference does not lead to an object of the expected kind, which a well-typed caller
  never passes.
\<close>

definition addTaskToScenario ::
  "int \<Rightarrow> store \<Rightarrow> ref \<Rightarrow> ref \<Rightarrow> (Task list) Objective list \<Rightarrow> (store \<times> ref) option" where
  "addTaskToScenario now h scenario task historicalObjectives = do {
     s \<leftarrow> getScenario h scenario;
     let (h, newScenario) = alloc h (ScenarioObject s);
     s \<leftarrow> getScenario h newScenario;
     ob \<leftarrow> getObjective h (modifiedObjective s);
     oldTasks \<leftarrow> getTaskArray h (tasks ob);
     let (h, newTasks) = alloc h (TaskArray (oldTasks @ [task]));
     let (h, newObjective) = alloc h (ObjectiveObject (ob\<lparr>tasks := newTasks\<rparr>));
     h \<leftarrow> updateScenario h newScenario (\<lambda>s. s\<lparr>modifiedObjective := newObjective\<rparr>);
     s \<leftarrow> getScenario h newScenario;
     objective \<leftarrow> readObjective h (modifiedObjective s);
     let (h, newPrediction) =
       alloc h (PredictionObject (predictObjectiveCompletion now objective historicalObjectives));
     h \<leftarrow> updateScenario h newScenario (\<lambda>s. s\<lparr>prediction := newPrediction\<rparr>);
     s \<leftarrow> getScenario h newScenario;
     oldModifications \<leftarrow> getModifications h (modifications s);
     t \<leftarrow> getTask h task;
     let (h, newModifications) =
       alloc h (ModificationArray (oldModifications @
         [\<lparr> mod_type = Add_task, mod_description = ''Added task: '' @ title t,
            mod_taskId = Some (task_id t), details = TaskDetails task \<rparr>]));
     h \<leftarrow> updateScenario h newScenario (\<lambda>s. s\<lparr>modifications := newModifications\<rparr>);
     Some (h, newScenario)
   }"

subsection \<open>Changing a priority\<close>

text \<open>\<open>Array.prototype.findIndex\<close>: the first index whose element passes, or -1.\<close>

fun findIndex :: "('a \<Rightarrow> bool) \<Rightarrow> 'a list \<Rightarrow> int" where
  "findIndex P [] = - 1"
| "findIndex P (x # xs) =
     (if P x then 0 else (let i = findIndex P xs in if i = - 1 then - 1 else i + 1))"

text \<open>
  \<open>modifyTaskPriority(scenario, taskId, newPriority, historicalObjectives)\<close>.  When no
  task has the id, the function returns its argument \<open>scenario\<close> (the copy
  \<open>newScenario\<close> made before the test is dropped).
\<close>

definition modifyTaskPriority ::
  "int \<Rightarrow> store \<Rightarrow> ref \<Rightarrow> string \<Rightarrow> int \<Rightarrow> (Task list) Objective list \<Rightarrow> (store \<times> ref) option"
  where
  "modifyTaskPriority now h scenario taskId newPriority historicalObjectives = do {
     s \<leftarrow> getScenario h scenario;
     let (h, newScenario) = alloc h (ScenarioObject s);
     s \<leftarrow> getScenario h newScenario;
     ob \<leftarrow> getObjective h (modifiedObjective s);
     taskRefs \<leftarrow> getTaskArray h (tasks ob);
     ts \<leftarrow> readTasks h taskRefs;
     let taskIndex = findIndex (\<lambda>t. task_id t = taskId) ts;
     if taskIndex = - 1 then Some (h, scenario)
     else do {
       let i = nat taskIndex;
       let oldPriority =
         (if truthy_int (priority (ts ! i)) then the (priority (ts ! i)) else 5);
       let (h, updatedTasks) = alloc h (TaskArray taskRefs);
       let (h, updatedTask) =
         alloc h (TaskObject (withPriority (ts ! i) (Some newPriority)));
       let h = h[updatedTasks := TaskArray (taskRefs[i := updatedTask])];
       let (h, newObjective) = alloc h (ObjectiveObject (ob\<lparr>tasks := updatedTasks\<rparr>));
       h \<leftarrow> updateScenario h newScenario (\<lambda>s. s\<lparr>modifiedObjective := newObjective\<rparr>);
       s \<leftarrow> getScenario h newScenario;
       objective \<leftarrow> readObjective h (modifiedObjective s);
       let (h, newPrediction) =
         alloc h (PredictionObject
           (predictObjectiveCompletion now objective historicalObjectives));
       h \<leftarrow> updateScenario h newScenario (\<lambda>s. s\<lparr>prediction := newPrediction\<rparr>);
       s \<leftarrow> getScenario h newScenario;
       oldModifications \<leftarrow> getModifications h (modifications s);
       t \<leftarrow> getTask h updatedTask;
       let (h, newModifications) =
         alloc h (ModificationArray (oldModifications @
           [\<lparr> mod_type = Change_priority,
              mod_description =
                ''Changed priority of '' @ [CHR 0x22] @ title t @ [CHR 0x22] @ '' from ''
                  @ show_int oldPriority @ '' to '' @ show_int newPriority,
              mod_taskId = Some taskId,
              details = PriorityDetails oldPriority newPriority \<rparr>]));
       h \<leftarrow> updateScenario h newScenario (\<lambda>s. s\<lparr>modifications := newModifications\<rparr>);
       Some (h, newScenario)
     }
   }"

section \<open>Example data\<close>

text \<open>
  A pending task, and two histories of three completed tasks whose feature vectors equal
  the task's: in the first every task took one minute, in the second every task was
  completed in the millisecond it was created.
\<close>

abbreviation exampleTask :: Task where
  "exampleTask \<equiv> Task ''t1'' ''abc'' Pending (Some 4) 5000 None None None"

abbreviation steadyHistory :: "Task list" where
  "steadyHistory \<equiv>
     [Task ''h1'' ''abd'' Completed (Some 4) 1000 (Some 61000) None None,
      Task ''h2'' ''abe'' Completed (Some 4) 2000 (Some 62000) None None,
      Task ''h3'' ''abf'' Completed (Some 4) 3000 (Some 63000) None None]"

abbreviation instantHistory :: "Task list" where
  "instantHistory \<equiv>
     [Task ''h1'' ''abd'' Completed (Some 4) 1000 (Some 1000) None None,
      Task ''h2'' ''abe'' Completed (Some 4) 2000 (Some 2000) None None,
      Task ''h3'' ''abf'' Completed (Some 4) 3000 (Some 3000) None None]"

abbreviation exampleObjective :: "(Task list) Objective" where
  "exampleObjective \<equiv>
     \<lparr> obj_id = ''o1'', obj_title = ''Ship'', description = [], tasks = [exampleTask],
       obj_status = Active, obj_createdAt = 4000, agentRole = None \<rparr>"

abbreviation pastObjective :: "(Task list) Objective" where
  "pastObjective \<equiv>
     \<lparr> obj_id = ''o0'', obj_title = ''Past'', description = [], tasks = steadyHistory,
       obj_status = ObjectiveCompleted, obj_createdAt = 500, agentRole = None \<rparr>"

text \<open>
  A store with a scenario for the example objective at reference 0: the original
  objective (1) with its task array (8) and task (9), the modified objective (2) with its
  own task array (3) and task (6), the prediction (4), the empty modification log (5), and
  a task yet to be added (7).
\<close>

abbreviation exampleScenario :: Scenario where
  "exampleScenario \<equiv>
     \<lparr> scenario_id = ''scenario-1'', name = ''Baseline'', scenario_description = [],
       baseObjective = 1, modifiedObjective = 2, prediction = 4,
       scenario_createdAt = 9000, modifications = 5 \<rparr>"

abbreviation exampleStore :: store where
  "exampleStore \<equiv>
     [ScenarioObject exampleScenario,
      ObjectiveObject \<lparr> obj_id = ''o1'', obj_title = ''Ship'', description = [], tasks = 8,
        obj_status = Active, obj_createdAt = 4000, agentRole = None \<rparr>,
      ObjectiveObject \<lparr> obj_id = ''o1'', obj_title = ''Ship'', description = [], tasks = 3,
        obj_status = Active, obj_createdAt = 4000, agentRole = None \<rparr>,
      TaskArray [6],
      PredictionObject (predictObjectiveCompletion 9000 exampleObjective []),
      ModificationArray [],
      TaskObject exampleTask,
      TaskObject (Task ''t2'' ''review'' Pending (Some 5) 9500 None None None),
      TaskArray [9],
      TaskObject exampleTask]"

abbreviation exampleContents :: ScenarioContents where
  "exampleContents \<equiv>
     \<lparr> scenarioFields = exampleScenario, objectiveContents = exampleObjective,
       predictionContents = predictObjectiveCompletion 9000 exampleObjective [],
       modificationLog = [] \<rparr>"

section \<open>Properties\<close>

subsection \<open>Lower-cased keys and inherited properties\<close>

text \<open>
  A lower-cased key has no capital letter, so the only inherited properties it can read
  are \<open>constructor\<close> and \<open>__proto__\<close>.
\<close>

lemma toLowerChar_not_upper:
  "toLowerChar x \<notin> set ''ABCDEFGHIJKLMNOPQRSTUVWXYZ''"
  by (simp add: toLowerChar_def)

lemma toLowerCase_no_upper:
  "u \<in> set ''ABCDEFGHIJKLMNOPQRSTUVWXYZ'' \<Longrightarrow> u \<notin> set (toLowerCase c)"
  using toLowerChar_not_upper by (auto simp: toLowerCase_def)

lemma toLowerCase_not_method:
  "toLowerCase c \<notin> set [''hasOwnProperty'', ''isPrototypeOf'', ''propertyIsEnumerable'',
                          ''toLocaleString'', ''toString'', ''valueOf'',
                          ''__defineGetter__'', ''__defineSetter__'',
                          ''__lookupGetter__'', ''__lookupSetter__'']"
proof -
  have "\<And>u s. u \<in> set ''ABCDEFGHIJKLMNOPQRSTUVWXYZ'' \<Longrightarrow> u \<in> set s \<Longrightarrow> toLowerCase c \<noteq> s"
    using toLowerCase_no_upper by blast
  note ne = this
  have "toLowerCase c \<noteq> ''hasOwnProperty''" by (rule ne [of "CHR ''P''"]) simp_all
  moreover have "toLowerCase c \<noteq> ''isPrototypeOf''" by (rule ne [of "CHR ''P''"]) simp_all
  moreover have "toLowerCase c \<noteq> ''propertyIsEnumerable''" by (rule ne [of "CHR ''I''"]) simp_all
  moreover have "toLowerCase c \<noteq> ''toLocaleString''" by (rule ne [of "CHR ''S''"]) simp_all
  moreover have "toLowerCase c \<noteq> ''toString''" by (rule ne [of "CHR ''S''"]) simp_all
  moreover have "toLowerCase c \<noteq> ''valueOf''" by (rule ne [of "CHR ''O''"]) simp_all
  moreover have "toLowerCase c \<noteq> ''__defineGetter__''" by (rule ne [of "CHR ''G''"]) simp_all
  moreover have "toLowerCase c \<noteq> ''__defineSetter__''" by (rule ne [of "CHR ''S''"]) simp_all
  moreover have "toLowerCase c \<noteq> ''__lookupGetter__''" by (rule ne [of "CHR ''G''"]) simp_all
  moreover have "toLowerCase c \<noteq> ''__lookupSetter__''" by (rule ne [of "CHR ''S''"]) simp_all
  ultimately show ?thesis by simp
qed

lemma objectPrototype_lower:
  "objectPrototype (toLowerCase c) =
     (if toLowerCase c = ''constructor'' then BuiltinObject ''Object''
      else if toLowerCase c = ''__proto__'' then BuiltinObject ''Object.prototype''
      else Undefined)"
  using toLowerCase_not_method [of c] by (simp add: objectPrototype_def)

subsection \<open>Feature extraction\<close>

lemma getCategoryComplexity_table:
  "getCategoryComplexity c =
     (if toLowerCase c = ''research'' then Number 4
      else if toLowerCase c = ''planning'' then Number 3
      else if toLowerCase c = ''execution'' then Number 6
      else if toLowerCase c = ''testing'' then Number 5
      else if toLowerCase c = ''documentation'' then Number 2
      else if toLowerCase c = ''optimization'' then Number 7
      else if toLowerCase c = ''constructor'' then BuiltinObject ''Object''
      else if toLowerCase c = ''__proto__'' then BuiltinObject ''Object.prototype''
      else Number 4)"
  by (simp add: getCategoryComplexity_def recordLookup_def complexityMap_def
        objectPrototype_lower)

text \<open>
  Claim C5, as the code has it by design.  For a task whose priority is absent or not
  zero, and whose category is absent or a non-empty name that does not lower-case to a
  property name inherited by object literals (\<open>constructor\<close>, \<open>__proto__\<close>), the feature
  vector is \<open>[titleLength, priority, categoryComplexity, subtaskCount * 2]\<close>: the priority
  entry is 5 when the priority is absent, the category entry is looked up on the
  lower-cased name (research 4, planning 3, execution 6, testing 5, documentation 2,
  optimization 7, an unknown name 4), and a task with no category gets the entry 3, not
  4: \<open>extractTaskFeatures\<close> has its own default for that case and does not call
  \<open>getCategoryComplexity\<close>.
\<close>

theorem extractTaskFeatures_vector:
  assumes "priority t \<noteq> Some 0"
    and "category t \<noteq> Some []"
    and "map_option toLowerCase (category t) \<noteq> Some ''constructor''"
    and "map_option toLowerCase (category t) \<noteq> Some ''__proto__''"
  shows "extractTaskFeatures t =
     [ Number (real (length (title t))),
       Number (case priority t of None \<Rightarrow> 5 | Some p \<Rightarrow> real_of_int p),
       Number (case category t of
          None \<Rightarrow> 3
        | Some c \<Rightarrow>
            if toLowerCase c = ''research'' then 4
            else if toLowerCase c = ''planning'' then 3
            else if toLowerCase c = ''execution'' then 6
            else if toLowerCase c = ''testing'' then 5
            else if toLowerCase c = ''documentation'' then 2
            else if toLowerCase c = ''optimization'' then 7
            else 4),
       Number (real (subtaskCount t) * 2) ]"
  using assms
  by (auto simp: extractTaskFeatures_def truthy_int_def truthy_string_def
        getCategoryComplexity_table split: option.splits)

theorem extractTaskFeatures_vector_witness:
  "priority (Task ''t1'' ''abc'' Pending (Some 2) 1000 None (Some ''TeStInG'')
       (Some [Task ''s1'' ''x'' Pending None 1000 None None None])) \<noteq> Some 0
   \<and> category (Task ''t1'' ''abc'' Pending (Some 2) 1000 None (Some ''TeStInG'')
       (Some [Task ''s1'' ''x'' Pending None 1000 None None None])) \<noteq> Some []
   \<and> map_option toLowerCase (category (Task ''t1'' ''abc'' Pending (Some 2) 1000 None
       (Some ''TeStInG'') (Some [Task ''s1'' ''x'' Pending None 1000 None None None])))
       \<noteq> Some ''constructor''
   \<and> map_option toLowerCase (category (Task ''t1'' ''abc'' Pending (Some 2) 1000 None
       (Some ''TeStInG'') (Some [Task ''s1'' ''x'' Pending None 1000 None None None])))
       \<noteq> Some ''__proto__''
   \<and> extractTaskFeatures (Task ''t1'' ''abc'' Pending (Some 2) 1000 None (Some ''TeStInG'')
       (Some [Task ''s1'' ''x'' Pending None 1000 None None None]))
     = [Number 3, Number 2, Number 5, Number 2]"
  using extractTaskFeatures_vector
    [of "Task ''t1'' ''abc'' Pending (Some 2) 1000 None (Some ''TeStInG'')
       (Some [Task ''s1'' ''x'' Pending None 1000 None None None])"]
  by (simp add: toLowerCase_def toLowerChar_def subtaskCount_def)

text \<open>
  The claim as written gives a task without a category the complexity 4.  For the task
  titled \<open>abc\<close> with priority 5, no category and no subtasks the code computes
  \<open>[3, 5, 3, 0]\<close>.
\<close>

theorem extractTaskFeatures_absent_category_counterexample:
  "extractTaskFeatures (Task ''t1'' ''abc'' Pending (Some 5) 1000 None None None)
     = [Number 3, Number 5, Number 3, Number 0]
   \<and> extractTaskFeatures (Task ''t1'' ''abc'' Pending (Some 5) 1000 None None None)
     \<noteq> [Number 3, Number 5, Number 4, Number 0]"
  by (simp add: extractTaskFeatures_def truthy_int_def truthy_string_def subtaskCount_def)

text \<open>
  A mixed-case name, an unknown name, and a name that reads the inherited property
  \<open>constructor\<close>, evaluated.
\<close>

lemma extractTaskFeatures_examples:
  "extractTaskFeatures
     (Task ''t1'' ''abc'' Pending None 1000 None (Some ''ReSearch'') (Some []))
     = [Number 3, Number 5, Number 4, Number 0]
   \<and> extractTaskFeatures
     (Task ''t1'' ''abc'' Pending (Some 2) 1000 None (Some ''chores'') None)
     = [Number 3, Number 2, Number 4, Number 0]
   \<and> extractTaskFeatures
     (Task ''t1'' ''abc'' Pending (Some 2) 1000 None (Some ''Constructor'') None)
     = [Number 3, Number 2, BuiltinObject ''Object'', Number 0]"
  by (simp add: extractTaskFeatures_def truthy_int_def truthy_string_def subtaskCount_def
      getCategoryComplexity_def recordLookup_def objectPrototype_def complexityMap_def
      toLowerCase_def toLowerChar_def)

subsection \<open>Heuristic estimate\<close>

lemma categoryMultipliers_table:
  "toNumber (orElse (recordLookup categoryMultipliers (toLowerCase c)) 1.3) =
     (if toLowerCase c = ''research'' then Num 1.5
      else if toLowerCase c = ''planning'' then Num 1.2
      else if toLowerCase c = ''execution'' then Num 1.8
      else if toLowerCase c = ''testing'' then Num 1.4
      else if toLowerCase c = ''documentation'' then Num 1.0
      else if toLowerCase c = ''optimization'' then Num 2.0
      else if toLowerCase c = ''constructor'' then NaN
      else if toLowerCase c = ''__proto__'' then NaN
      else Num 1.3)"
  by (simp add: recordLookup_def categoryMultipliers_def objectPrototype_lower)

lemma multipliers_pos: "0 < multipliers r"
  by (cases r) simp_all

lemma speed_pos: "0 < getAgentSpeedMultiplier role"
  by (simp add: getAgentSpeedMultiplier_def multipliers_pos)

lemma withPriority_sel [simp]:
  "title (withPriority t p) = title t" "priority (withPriority t p) = p"
  "category (withPriority t p) = category t" "subtasks (withPriority t p) = subtasks t"
  "subtaskCount (withPriority t p) = subtaskCount t"
  by (simp_all add: withPriority_def subtaskCount_def)

text \<open>
  For a category that does not lower-case to an inherited property name, the heuristic
  estimate is the finite number
  \<open>(180000 + titleLength * 50 + priorityAddition) * categoryMultiplier
  * (1 + subtaskCount * 0.3) * speedMultiplier\<close>.
\<close>

lemma getHeuristicEstimate_duration:
  assumes "map_option toLowerCase (category t) \<noteq> Some ''constructor''"
    and "map_option toLowerCase (category t) \<noteq> Some ''__proto__''"
  shows "estimatedDuration (getHeuristicEstimate t role) = Num (
     (180000 + real (length (title t)) * 50
        + (case priority t of
             None \<Rightarrow> 0
           | Some p \<Rightarrow> if p = 0 then 0 else real_of_int ((11 - p) * 30000)))
     * (case category t of
          None \<Rightarrow> 1
        | Some c \<Rightarrow>
            if c = [] then 1
            else if toLowerCase c = ''research'' then 1.5
            else if toLowerCase c = ''planning'' then 1.2
            else if toLowerCase c = ''execution'' then 1.8
            else if toLowerCase c = ''testing'' then 1.4
            else if toLowerCase c = ''documentation'' then 1.0
            else if toLowerCase c = ''optimization'' then 2.0
            else 1.3)
     * (1 + real (subtaskCount t) * 0.3)
     * (case role of
          None \<Rightarrow> 1.0
        | Some Developer \<Rightarrow> 0.9
        | Some Designer \<Rightarrow> 1.1
        | Some Researcher \<Rightarrow> 1.3
        | Some Manager \<Rightarrow> 0.8
        | Some Analyst \<Rightarrow> 1.0
        | Some General \<Rightarrow> 1.0))"
proof -
  have speed: "getAgentSpeedMultiplier role =
     (case role of None \<Rightarrow> 1.0 | Some Developer \<Rightarrow> 0.9 | Some Designer \<Rightarrow> 1.1
      | Some Researcher \<Rightarrow> 1.3 | Some Manager \<Rightarrow> 0.8 | Some Analyst \<Rightarrow> 1.0 | Some General \<Rightarrow> 1.0)"
    by (simp add: getAgentSpeedMultiplier_def split: option.splits AgentRole.splits)
  have sub: "subtasks t = None \<Longrightarrow> subtaskCount t = 0"
    by (simp add: subtaskCount_def)
  show ?thesis
    using assms
    unfolding getHeuristicEstimate_def Let_def speed
    by (cases "category t"; cases "priority t")
       (simp_all add: truthy_int_def truthy_string_def categoryMultipliers_table sub)
qed

text \<open>
  Under the same condition, among non-zero priorities a lower number gives a strictly
  larger estimate.
\<close>

lemma getHeuristicEstimate_priority_order:
  assumes "map_option toLowerCase (category t) \<noteq> Some ''constructor''"
    and "map_option toLowerCase (category t) \<noteq> Some ''__proto__''"
    and "p < q" and "p \<noteq> 0" and "q \<noteq> 0"
  shows "num_lt (estimatedDuration (getHeuristicEstimate (withPriority t (Some q)) role))
                (estimatedDuration (getHeuristicEstimate (withPriority t (Some p)) role))"
proof -
  define c where "c = (case category t of
          None \<Rightarrow> 1
        | Some c \<Rightarrow>
            if c = [] then 1
            else if toLowerCase c = ''research'' then 1.5
            else if toLowerCase c = ''planning'' then 1.2
            else if toLowerCase c = ''execution'' then 1.8
            else if toLowerCase c = ''testing'' then 1.4
            else if toLowerCase c = ''documentation'' then 1.0
            else if toLowerCase c = ''optimization'' then 2.0
            else (1.3::real))"
  define s where "s = 1 + real (subtaskCount t) * 0.3"
  define m where "m = (case role of
          None \<Rightarrow> 1.0
        | Some Developer \<Rightarrow> 0.9
        | Some Designer \<Rightarrow> 1.1
        | Some Researcher \<Rightarrow> 1.3
        | Some Manager \<Rightarrow> 0.8
        | Some Analyst \<Rightarrow> 1.0
        | Some General \<Rightarrow> (1.0::real))"
  define b where "b = 180000 + real (length (title t)) * 50"
  have cpos: "0 < c" unfolding c_def by (simp split: option.splits)
  have spos: "0 < s" unfolding s_def by (simp add: add_pos_nonneg)
  have mpos: "0 < m" unfolding m_def by (simp split: option.splits AgentRole.splits)
  have est: "estimatedDuration (getHeuristicEstimate (withPriority t (Some r)) role)
      = Num ((b + real_of_int ((11 - r) * 30000)) * c * s * m)" if "r \<noteq> 0" for r
    using that getHeuristicEstimate_duration [of "withPriority t (Some r)" role] assms(1,2)
    by (simp add: b_def c_def s_def m_def)
  have "b + real_of_int ((11 - q) * 30000) < b + real_of_int ((11 - p) * 30000)"
    using assms(3) by simp
  then have "(b + real_of_int ((11 - q) * 30000)) * c * s * m
           < (b + real_of_int ((11 - p) * 30000)) * c * s * m"
    using cpos spos mpos by (simp add: mult_strict_right_mono)
  then show ?thesis
    using assms(4,5) by (simp add: est)
qed

text \<open>
  Claim C3 at a category outside the table.  The claim gives an unknown category the
  multiplier 1.3, and the code reads the multiplier with
  \<open>categoryMultipliers[task.category.toLowerCase()] || 1.3\<close>.  For the category
  \<open>constructor\<close> the read finds the property every object literal inherits, the function
  \<open>Object\<close>; it is truthy, so the default 1.3 is not taken, and
  \<open>baseDuration *= \<dots>\<close> makes the estimate NaN.  For the unknown category \<open>chores\<close> the
  same task gets \<open>(180000 + 3 * 50 + 6 * 30000) * 1.3\<close>.
\<close>

theorem getHeuristicEstimate_inherited_category:
  "estimatedDuration (getHeuristicEstimate
      (Task ''t1'' ''abc'' Pending (Some 5) 1000 None (Some ''constructor'') None) None) = NaN
   \<and> estimatedDuration (getHeuristicEstimate
      (Task ''t1'' ''abc'' Pending (Some 5) 1000 None (Some ''chores'') None) None)
     = Num ((180000 + 3 * 50 + (11 - 5) * 30000) * 1.3)"
  by (simp add: getHeuristicEstimate_def truthy_int_def truthy_string_def subtaskCount_def
        getAgentSpeedMultiplier_def recordLookup_def objectPrototype_def
        categoryMultipliers_def toLowerCase_def toLowerChar_def)

text \<open>A task with a category, a subtask and a role, evaluated.\<close>

lemma getHeuristicEstimate_example:
  "estimatedDuration (getHeuristicEstimate
      (Task ''t1'' ''abc'' Pending (Some 3) 1000 None (Some ''Testing'')
         (Some [Task ''s1'' ''x'' Pending None 1000 None None None])) (Some Developer))
   = Num ((180000 + 3 * 50 + 8 * 30000) * 1.4 * 1.3 * 0.9)"
  by (simp add: getHeuristicEstimate_def truthy_int_def truthy_string_def subtaskCount_def
        getAgentSpeedMultiplier_def recordLookup_def categoryMultipliers_def
        toLowerCase_def toLowerChar_def)

subsection \<open>Heuristic fallback\<close>

lemma filter_completedWithTiming_le:
  "length (filter completedWithTiming hs)
     \<le> length (filter (\<lambda>h. status h = Completed \<and> completedAt h \<noteq> None) hs)"
  by (induction hs) (auto simp: completedWithTiming_def truthy_int_def split: option.splits)

text \<open>
  Claim C2.  If fewer than three historical tasks have the status \<open>completed\<close> and a
  completion timestamp (the creation timestamp is a required field), then
  \<open>predictTaskCompletionTime\<close> returns the heuristic estimate, with confidence 0.4, the
  two fixed factors and no similar task.  (The code's own filter also drops tasks whose
  timestamps are zero, so it keeps at most the tasks the claim counts.)
\<close>

theorem predictTaskCompletionTime_heuristic_fallback:
  assumes "length (filter (\<lambda>h. status h = Completed \<and> completedAt h \<noteq> None) historicalTasks) < 3"
  shows "predictTaskCompletionTime t historicalTasks role = getHeuristicEstimate t role
       \<and> confidenceScore (predictTaskCompletionTime t historicalTasks role) = Num 0.4
       \<and> factors (predictTaskCompletionTime t historicalTasks role)
           = [''Heuristic estimation'', ''Insufficient historical data'']
       \<and> similarTaskCount (predictTaskCompletionTime t historicalTasks role) = 0"
proof -
  have "length (filter completedWithTiming historicalTasks) < 3"
    using assms filter_completedWithTiming_le [of historicalTasks] by linarith
  then have "predictTaskCompletionTime t historicalTasks role = getHeuristicEstimate t role"
    by (simp add: predictTaskCompletionTime_def)
  then show ?thesis
    by (simp add: getHeuristicEstimate_def Let_def)
qed

theorem predictTaskCompletionTime_heuristic_fallback_witness:
  "length (filter (\<lambda>h. status h = Completed \<and> completedAt h \<noteq> None)
      [Task ''h1'' ''abc'' Completed (Some 5) 1000 (Some 61000) None None,
       Task ''h2'' ''abd'' Completed (Some 5) 2000 (Some 92000) None None,
       Task ''h3'' ''abe'' Pending (Some 5) 3000 None None None,
       Task ''h4'' ''abf'' Completed (Some 5) 4000 None None None]) < 3
   \<and> confidenceScore (predictTaskCompletionTime
        (Task ''t1'' ''abc'' Pending (Some 5) 5000 None None None)
        [Task ''h1'' ''abc'' Completed (Some 5) 1000 (Some 61000) None None,
         Task ''h2'' ''abd'' Completed (Some 5) 2000 (Some 92000) None None,
         Task ''h3'' ''abe'' Pending (Some 5) 3000 None None None,
         Task ''h4'' ''abf'' Completed (Some 5) 4000 None None None] (Some Manager)) = Num 0.4
   \<and> factors (predictTaskCompletionTime
        (Task ''t1'' ''abc'' Pending (Some 5) 5000 None None None)
        [Task ''h1'' ''abc'' Completed (Some 5) 1000 (Some 61000) None None,
         Task ''h2'' ''abd'' Completed (Some 5) 2000 (Some 92000) None None,
         Task ''h3'' ''abe'' Pending (Some 5) 3000 None None None,
         Task ''h4'' ''abf'' Completed (Some 5) 4000 None None None] (Some Manager))
      = [''Heuristic estimation'', ''Insufficient historical data'']
   \<and> similarTaskCount (predictTaskCompletionTime
        (Task ''t1'' ''abc'' Pending (Some 5) 5000 None None None)
        [Task ''h1'' ''abc'' Completed (Some 5) 1000 (Some 61000) None None,
         Task ''h2'' ''abd'' Completed (Some 5) 2000 (Some 92000) None None,
         Task ''h3'' ''abe'' Pending (Some 5) 3000 None None None,
         Task ''h4'' ''abf'' Completed (Some 5) 4000 None None None] (Some Manager)) = 0"
proof -
  have h: "length (filter (\<lambda>h. status h = Completed \<and> completedAt h \<noteq> None)
      [Task ''h1'' ''abc'' Completed (Some 5) 1000 (Some 61000) None None,
       Task ''h2'' ''abd'' Completed (Some 5) 2000 (Some 92000) None None,
       Task ''h3'' ''abe'' Pending (Some 5) 3000 None None None,
       Task ''h4'' ''abf'' Completed (Some 5) 4000 None None None]) < 3"
    by simp
  show ?thesis
    using h predictTaskCompletionTime_heuristic_fallback [OF h,
      of "Task ''t1'' ''abc'' Pending (Some 5) 5000 None None None" "Some Manager"]
    by blast
qed

subsection \<open>Cosine similarity\<close>

text \<open>A similarity is a finite number or NaN.\<close>

lemma notInfinite_ops:
  "notInfinite (toNumber f)"
  "notInfinite x \<Longrightarrow> notInfinite y \<Longrightarrow> notInfinite (num_add x y)"
  "notInfinite x \<Longrightarrow> notInfinite y \<Longrightarrow> notInfinite (num_mul x y)"
  "notInfinite x \<Longrightarrow> notInfinite (num_sqrt x)"
  by (cases f; simp add: notInfinite_def)
     (cases x; cases y; simp add: notInfinite_def)+


lemma notInfinite_foldl:
  assumes "notInfinite a" and "\<And>s x. notInfinite s \<Longrightarrow> notInfinite (g s x)"
  shows "notInfinite (foldl g a xs)"
  using assms(1) by (induction xs arbitrary: a) (simp_all add: assms(2))

lemma num_div_nonzero:
  assumes "notInfinite d" and "notInfinite m1" and "notInfinite m2"
    and "m1 \<noteq> Num 0" and "m2 \<noteq> Num 0"
  shows "notInfinite (num_div d (num_mul m1 m2))"
  using assms by (cases d; cases m1; cases m2) (simp_all add: notInfinite_def)

lemma calculateSimilarity_notInfinite:
  "notInfinite (calculateSimilarity features1 features2)"
proof -
  have z: "notInfinite (Num 0)" by (simp add: notInfinite_def)
  have d: "notInfinite (foldl (\<lambda>s (f1, f2). num_add s (num_mul (toNumber f1) (toNumber f2)))
             (Num 0) (zip features1 features2))"
    by (rule notInfinite_foldl [OF z]) (auto simp: notInfinite_ops)
  have m: "notInfinite (num_sqrt (foldl (\<lambda>s f. num_add s (num_mul (toNumber f) (toNumber f)))
             (Num 0) fs))" for fs
    by (rule notInfinite_ops(4), rule notInfinite_foldl [OF z]) (simp add: notInfinite_ops)
  show ?thesis
    using z d m num_div_nonzero
    by (simp add: calculateSimilarity_def Let_def)
qed

subsection \<open>Confidence score\<close>

lemma example_features:
  "extractTaskFeatures (Task i [a, b, c] s (Some 4) cr co None None)
     = [Number 3, Number 4, Number 3, Number 0]"
  by (simp add: extractTaskFeatures_def truthy_int_def truthy_string_def subtaskCount_def)

lemma example_similarity:
  "calculateSimilarity [Number 3, Number 4, Number 3, Number 0]
     [Number 3, Number 4, Number 3, Number 0] = Num 1"
  by (simp add: calculateSimilarity_def)

lemma similarTasks_steadyHistory:
  "similarTasks exampleTask steadyHistory = map (\<lambda>h. (h, Num 1)) steadyHistory"
  by (simp add: similarTasks_def example_features example_similarity)

lemma similarTasks_instantHistory:
  "similarTasks exampleTask instantHistory = map (\<lambda>h. (h, Num 1)) instantHistory"
  by (simp add: similarTasks_def example_features example_similarity)

text \<open>With three similar tasks of one minute each the confidence is 0.65.\<close>

lemma predictTaskCompletionTime_steadyHistory:
  "predictTaskCompletionTime exampleTask steadyHistory None =
     \<lparr> estimatedDuration = Num 60000, confidenceScore = Num 0.65, factors = [],
       similarTaskCount = 3 \<rparr>"
  by (simp add: predictTaskCompletionTime_def completedWithTiming_def truthy_int_def
        similarTasks_steadyHistory taskDuration_def avgDuration_def stdDev_def
        varianceConfidence_def sampleConfidence_def num_sub_def getAgentSpeedMultiplier_def
        predictionFactors_def truthy_string_def subtaskCount_def)

text \<open>
  Claim C4 at the input it names.  The three tasks of \<open>instantHistory\<close> are completed,
  have both timestamps, and their completion time equals their creation time.  They are
  all retained as similar tasks; the average duration and the standard deviation are 0,
  \<open>stdDev / avgDuration\<close> is \<open>0 / 0\<close>, and the confidence score that
  \<open>predictTaskCompletionTime\<close> returns is NaN (\<open>Math.max(0, NaN)\<close> is NaN), for which
  neither \<open>0 <= confidenceScore\<close> nor \<open>confidenceScore <= 1\<close> holds.
\<close>

theorem predictTaskCompletionTime_zero_average_confidence:
  "predictTaskCompletionTime exampleTask instantHistory None =
     \<lparr> estimatedDuration = Num 0, confidenceScore = NaN, factors = [],
       similarTaskCount = 3 \<rparr>
   \<and> \<not> num_le (Num 0)
         (confidenceScore (predictTaskCompletionTime exampleTask instantHistory None))
   \<and> \<not> num_le
         (confidenceScore (predictTaskCompletionTime exampleTask instantHistory None)) (Num 1)"
  by (simp add: predictTaskCompletionTime_def completedWithTiming_def truthy_int_def
        similarTasks_instantHistory taskDuration_def avgDuration_def stdDev_def
        varianceConfidence_def sampleConfidence_def num_sub_def num_le_def
        getAgentSpeedMultiplier_def predictionFactors_def truthy_string_def subtaskCount_def)

text \<open>
  Where the average duration of the similar tasks is positive, the confidence score is the
  average of the two components and lies between 0 and 1.
\<close>

lemma stdDev_nonneg: "0 \<le> stdDev ds"
proof -
  have "0 \<le> foldl (\<lambda>s d. s + (d - a)\<^sup>2) z ds" if "0 \<le> z" for a z :: real
    using that by (induction ds arbitrary: z) simp_all
  then show ?thesis by (simp add: stdDev_def)
qed

lemma varianceConfidence_positive_average:
  assumes "0 < avgDuration ds"
  shows "varianceConfidence ds = Num (max 0 (1 - stdDev ds / avgDuration ds))"
  using assms by (simp add: varianceConfidence_def num_sub_def max_def)

lemma confidenceScore_bounds_positive_average:
  assumes "3 \<le> length (filter completedWithTiming hist)"
    and "similarTasks t (filter completedWithTiming hist) \<noteq> []"
    and "0 < avgDuration (map (\<lambda>item. taskDuration (fst item))
                 (similarTasks t (filter completedWithTiming hist)))"
  shows "\<exists>c. confidenceScore (predictTaskCompletionTime t hist role) = Num c
           \<and> 0 \<le> c \<and> c \<le> 1
           \<and> c = (min (real (length (similarTasks t (filter completedWithTiming hist))) / 10) 1
                  + max 0 (1 - stdDev (map (\<lambda>item. taskDuration (fst item))
                                 (similarTasks t (filter completedWithTiming hist)))
                               / avgDuration (map (\<lambda>item. taskDuration (fst item))
                                 (similarTasks t (filter completedWithTiming hist))))) / 2"
proof -
  let ?sim = "similarTasks t (filter completedWithTiming hist)"
  let ?ds = "map (\<lambda>item. taskDuration (fst item)) ?sim"
  have q: "0 \<le> stdDev ?ds / avgDuration ?ds"
    using assms(3) stdDev_nonneg [of ?ds] by simp
  have conf: "confidenceScore (predictTaskCompletionTime t hist role) =
      Num ((sampleConfidence (length ?sim) + max 0 (1 - stdDev ?ds / avgDuration ?ds)) / 2)"
    using assms
    by (simp add: predictTaskCompletionTime_def Let_def varianceConfidence_positive_average)
  define a where "a = sampleConfidence (length ?sim)"
  define b where "b = max 0 (1 - stdDev ?ds / avgDuration ?ds)"
  have a: "0 \<le> a" "a \<le> 1"
    by (simp_all add: a_def sampleConfidence_def)
  have b: "0 \<le> b" "b \<le> 1"
    using q by (simp_all add: b_def)
  have "confidenceScore (predictTaskCompletionTime t hist role) = Num ((a + b) / 2)"
    by (simp add: conf a_def b_def)
  moreover have "0 \<le> (a + b) / 2" "(a + b) / 2 \<le> 1"
    using a b by simp_all
  moreover have "(a + b) / 2 =
      (min (real (length ?sim) / 10) 1 + max 0 (1 - stdDev ?ds / avgDuration ?ds)) / 2"
    by (simp add: a_def b_def sampleConfidence_def)
  ultimately show ?thesis by blast
qed

subsection \<open>Objective prediction\<close>

lemma num_add_zero_left: "num_add (Num 0) x = x"
  by (cases x) simp_all

lemma num_add_assoc: "num_add (num_add x y) z = num_add x (num_add y z)"
  by (cases x; cases y; cases z) simp_all

lemma num_sum_finite: "num_sum (map Num ds) = Num (sum_list ds)"
  by (induction ds) simp_all

lemma foldl_num_add: "foldl num_add a xs = num_add a (num_sum xs)"
proof (induction xs arbitrary: a)
  case Nil
  show ?case by (cases a) simp_all
next
  case (Cons x xs)
  then show ?case by (simp add: num_add_assoc)
qed

lemma foldl_predictEach_total:
  "loop_totalEstimatedTime (foldl (predictEach hs role) st ts) =
     num_add (loop_totalEstimatedTime st)
       (num_sum (map (\<lambda>t. estimatedDuration (predictTaskCompletionTime t hs role)) ts))"
proof (induction ts arbitrary: st)
  case Nil
  show ?case by (cases "loop_totalEstimatedTime st") simp_all
next
  case (Cons t ts)
  then show ?case by (simp add: predictEach_def Let_def num_add_assoc)
qed

lemma foldl_predictEach_highRisk:
  "loop_highRiskTasks (foldl (predictEach hs role) st ts) =
     loop_highRiskTasks st
       + length (filter (\<lambda>t. isHighRisk (predictTaskCompletionTime t hs role)) ts)"
  by (induction ts arbitrary: st) (simp_all add: predictEach_def Let_def)

lemma predictionLoop_total:
  "loop_totalEstimatedTime (predictionLoop objective hist) =
     num_sum (map (\<lambda>t. estimatedDuration
        (predictTaskCompletionTime t (concat (map tasks hist)) (agentRole objective)))
        (tasks objective))"
  by (simp add: predictionLoop_def foldl_predictEach_total num_add_zero_left)

lemma predictionLoop_highRisk:
  "loop_highRiskTasks (predictionLoop objective hist) =
     length (filter (\<lambda>t. isHighRisk
        (predictTaskCompletionTime t (concat (map tasks hist)) (agentRole objective)))
        (tasks objective))"
  by (simp add: predictionLoop_def foldl_predictEach_highRisk)

text \<open>
  Claim C1.  For every objective and historical corpus, the total estimated time is 1.2
  times the sum of the estimated durations of the objective's tasks (the overhead is
  applied once, to the sum), and the risk level is \<open>high\<close> when the ratio of high-risk
  tasks to \<open>max(taskCount, 1)\<close> is above 0.5, \<open>medium\<close> when it is above 0.25 and
  \<open>low\<close> otherwise, a task being high-risk when its prediction has a confidence below
  0.5 or an estimated duration above 600000 ms.  Sum and product are those of
  JavaScript numbers.
\<close>

theorem predictObjectiveCompletion_total_and_risk:
  "totalEstimatedTime (predictObjectiveCompletion now objective hist) =
     num_mul (Num 1.2) (num_sum (map (\<lambda>t. estimatedDuration
        (predictTaskCompletionTime t (concat (map tasks hist)) (agentRole objective)))
        (tasks objective)))
   \<and> riskLevel (predictObjectiveCompletion now objective hist) =
     (let highRiskCount = length (filter
            (\<lambda>t. let prediction =
                     predictTaskCompletionTime t (concat (map tasks hist)) (agentRole objective)
                 in num_lt (confidenceScore prediction) (Num 0.5)
                    \<or> num_lt (Num 600000) (estimatedDuration prediction))
            (tasks objective));
          ratio = real highRiskCount / real (max (length (tasks objective)) 1)
      in if ratio > 0.5 then High else if ratio > 0.25 then Medium else Low)"
proof -
  have comm: "num_mul x (Num c) = num_mul (Num c) x" for x c
    by (cases x) (simp_all add: mult.commute)
  show ?thesis
    by (simp add: predictObjectiveCompletion_def Let_def predictionLoop_total
          predictionLoop_highRisk riskLevelOf_def riskRatio_def isHighRisk_def comm)
qed

text \<open>
  Where every task has a finite estimate, the total is the real number 1.2 times their
  sum.
\<close>

lemma predictObjectiveCompletion_total_finite:
  assumes "map (\<lambda>t. estimatedDuration
        (predictTaskCompletionTime t (concat (map tasks hist)) (agentRole objective)))
        (tasks objective) = map Num ds"
  shows "totalEstimatedTime (predictObjectiveCompletion now objective hist)
           = Num (1.2 * sum_list ds)"
  by (simp add: predictObjectiveCompletion_def Let_def predictionLoop_total assms num_sum_finite)

subsection \<open>Risk monotonicity\<close>

lemma riskRatio_mono:
  "h1 \<le> h2 \<Longrightarrow> riskRatio h1 n \<le> riskRatio h2 n"
  by (simp add: riskRatio_def divide_right_mono)

lemma riskLevelOf_mono:
  "r1 \<le> r2 \<Longrightarrow> riskMap (riskLevelOf r1) \<le> riskMap (riskLevelOf r2)"
  by (simp add: riskLevelOf_def)

text \<open>
  Claim C6.  Between two runs of \<open>predictObjectiveCompletion\<close> on objectives with the same
  number of tasks, if the second has at least as many high-risk tasks as the first, then
  its risk ratio is at least as large and its risk level is not lower in the order
  \<open>low < medium < high\<close>.
\<close>

theorem riskLevel_monotone:
  assumes "length (tasks objective1) = length (tasks objective2)"
    and "length (filter (\<lambda>t. isHighRisk
            (predictTaskCompletionTime t (concat (map tasks hist1)) (agentRole objective1)))
            (tasks objective1))
       \<le> length (filter (\<lambda>t. isHighRisk
            (predictTaskCompletionTime t (concat (map tasks hist2)) (agentRole objective2)))
            (tasks objective2))"
  shows "riskRatio (loop_highRiskTasks (predictionLoop objective1 hist1)) (length (tasks objective1))
       \<le> riskRatio (loop_highRiskTasks (predictionLoop objective2 hist2)) (length (tasks objective2))
     \<and> riskMap (riskLevel (predictObjectiveCompletion now1 objective1 hist1))
       \<le> riskMap (riskLevel (predictObjectiveCompletion now2 objective2 hist2))"
proof -
  let ?h1 = "loop_highRiskTasks (predictionLoop objective1 hist1)"
  let ?h2 = "loop_highRiskTasks (predictionLoop objective2 hist2)"
  have "?h1 \<le> ?h2"
    using assms(2) by (simp add: predictionLoop_highRisk)
  then have r: "riskRatio ?h1 (length (tasks objective1)) \<le> riskRatio ?h2 (length (tasks objective2))"
    using assms(1) by (simp add: riskRatio_mono)
  then have "riskMap (riskLevelOf (riskRatio ?h1 (length (tasks objective1))))
           \<le> riskMap (riskLevelOf (riskRatio ?h2 (length (tasks objective2))))"
    by (rule riskLevelOf_mono)
  with r show ?thesis
    by (simp add: predictObjectiveCompletion_def Let_def)
qed

text \<open>
  The example objective against the one-minute history has no high-risk task and the
  level \<open>low\<close>; against an empty history its task is estimated by the heuristic, is
  high-risk, and the level is \<open>high\<close>.
\<close>

lemma exampleTask_heuristic_highRisk:
  "isHighRisk (predictTaskCompletionTime exampleTask [] None)"
  by (simp add: predictTaskCompletionTime_def isHighRisk_def getHeuristicEstimate_def Let_def)

theorem riskLevel_monotone_witness:
  "length (tasks exampleObjective) = length (tasks exampleObjective)
   \<and> length (filter (\<lambda>t. isHighRisk
         (predictTaskCompletionTime t (concat (map tasks [pastObjective]))
            (agentRole exampleObjective))) (tasks exampleObjective))
     \<le> length (filter (\<lambda>t. isHighRisk
         (predictTaskCompletionTime t (concat (map tasks [])) (agentRole exampleObjective)))
         (tasks exampleObjective))
   \<and> riskMap (riskLevel (predictObjectiveCompletion 9000 exampleObjective [pastObjective]))
     \<le> riskMap (riskLevel (predictObjectiveCompletion 9000 exampleObjective []))
   \<and> riskLevel (predictObjectiveCompletion 9000 exampleObjective [pastObjective]) = Low
   \<and> riskLevel (predictObjectiveCompletion 9000 exampleObjective []) = High"
proof -
  have a: "length (tasks exampleObjective) = length (tasks exampleObjective)"
    by simp
  have b: "length (filter (\<lambda>t. isHighRisk
         (predictTaskCompletionTime t (concat (map tasks [pastObjective]))
            (agentRole exampleObjective))) (tasks exampleObjective))
     \<le> length (filter (\<lambda>t. isHighRisk
         (predictTaskCompletionTime t (concat (map tasks [])) (agentRole exampleObjective)))
         (tasks exampleObjective))"
    by (simp add: exampleTask_heuristic_highRisk)
  have c: "riskLevel (predictObjectiveCompletion 9000 exampleObjective [pastObjective]) = Low"
    by (simp add: predictObjectiveCompletion_def predictionLoop_def predictEach_def
          predictTaskCompletionTime_steadyHistory isHighRisk_def riskRatio_def riskLevelOf_def
          Let_def)
  have d: "riskLevel (predictObjectiveCompletion 9000 exampleObjective []) = High"
    using exampleTask_heuristic_highRisk
    by (simp add: predictObjectiveCompletion_def predictionLoop_def predictEach_def
          riskRatio_def riskLevelOf_def Let_def)
  show ?thesis
    using a b c d riskLevel_monotone [OF a b, of 9000 9000] by blast
qed

text \<open>The whole prediction of the example objective against the one-minute history.\<close>

lemma predictObjectiveCompletion_example:
  "predictObjectiveCompletion 9000 exampleObjective [pastObjective] =
     \<lparr> totalEstimatedTime = Num 72000, completionDate = Num 81000,
       taskPredictions = [(''t1'',
         \<lparr> estimatedDuration = Num 60000, confidenceScore = Num 0.65, factors = [],
           similarTaskCount = 3 \<rparr>)],
       riskLevel = Low, bottlenecks = [] \<rparr>"
  by (simp add: predictObjectiveCompletion_def predictionLoop_def predictEach_def
        predictTaskCompletionTime_steadyHistory isHighRisk_def riskRatio_def riskLevelOf_def
        newDate_def js_trunc_def Let_def)

subsection \<open>Duration formatting\<close>

lemma smod_nonneg: "0 \<le> k \<Longrightarrow> 0 < l \<Longrightarrow> k smod l = k mod (l::int)"
  by (cases "k = 0") (simp_all add: signed_modulo_int_def)

lemma floor_ms_div:
  fixes ms :: real
  shows "\<lfloor>ms / 1000\<rfloor> div 60 = \<lfloor>ms / 60000\<rfloor>"
    and "\<lfloor>ms / 60000\<rfloor> div 60 = \<lfloor>ms / 3600000\<rfloor>"
    and "\<lfloor>ms / 3600000\<rfloor> div 24 = \<lfloor>ms / 86400000\<rfloor>"
proof -
  have "\<lfloor>ms / 1000 / real_of_int 60\<rfloor> = \<lfloor>ms / 1000\<rfloor> div 60"
    by (rule floor_divide_real_eq_div) simp
  then show "\<lfloor>ms / 1000\<rfloor> div 60 = \<lfloor>ms / 60000\<rfloor>" by simp
  have "\<lfloor>ms / 60000 / real_of_int 60\<rfloor> = \<lfloor>ms / 60000\<rfloor> div 60"
    by (rule floor_divide_real_eq_div) simp
  then show "\<lfloor>ms / 60000\<rfloor> div 60 = \<lfloor>ms / 3600000\<rfloor>" by simp
  have "\<lfloor>ms / 3600000 / real_of_int 24\<rfloor> = \<lfloor>ms / 3600000\<rfloor> div 24"
    by (rule floor_divide_real_eq_div) simp
  then show "\<lfloor>ms / 3600000\<rfloor> div 24 = \<lfloor>ms / 86400000\<rfloor>" by simp
qed

lemma floor_pos_iff:
  fixes ms :: real
  assumes "0 < c"
  shows "0 < \<lfloor>ms / c\<rfloor> \<longleftrightarrow> c \<le> ms"
proof -
  have "0 < \<lfloor>ms / c\<rfloor> \<longleftrightarrow> 1 \<le> ms / c"
    by (metis floor_less_iff int_one_le_iff_zero_less le_floor_iff of_int_1 linorder_not_less)
  also have "\<dots> \<longleftrightarrow> c \<le> ms"
    using assms by (simp add: le_divide_eq)
  finally show ?thesis .
qed

lemma formatDuration_nonneg:
  assumes "0 \<le> ms"
  shows "formatDuration ms =
     (if 86400000 \<le> ms
      then show_int \<lfloor>ms / 86400000\<rfloor> @ ''d '' @ show_int (\<lfloor>ms / 3600000\<rfloor> mod 24) @ ''h''
      else if 3600000 \<le> ms
      then show_int \<lfloor>ms / 3600000\<rfloor> @ ''h '' @ show_int (\<lfloor>ms / 60000\<rfloor> mod 60) @ ''m''
      else if 60000 \<le> ms then show_int \<lfloor>ms / 60000\<rfloor> @ ''m''
      else show_int \<lfloor>ms / 1000\<rfloor> @ ''s'')"
proof -
  have h0: "0 \<le> \<lfloor>ms / 3600000\<rfloor>" and m0: "0 \<le> \<lfloor>ms / 60000\<rfloor>"
    using assms by simp_all
  show ?thesis
    unfolding formatDuration_def Let_def floor_ms_div
    by (simp add: floor_pos_iff smod_nonneg h0 m0)
qed

lemma scenario_minutes:
  fixes ms :: real
  assumes "0 \<le> ms"
  shows "\<lfloor>js_rem ms 3600000 / 60000\<rfloor> = \<lfloor>ms / 60000\<rfloor> mod 60"
proof -
  have t: "js_trunc (ms / 3600000) = \<lfloor>ms / 3600000\<rfloor>"
    using assms by (simp add: js_trunc_def)
  have b: "\<lfloor>ms / 60000 / real_of_int 60\<rfloor> = \<lfloor>ms / 60000\<rfloor> div 60"
    by (rule floor_divide_real_eq_div) simp
  then have h: "\<lfloor>ms / 3600000\<rfloor> = \<lfloor>ms / 60000\<rfloor> div 60" by simp
  have "js_rem ms 3600000 / 60000 = ms / 60000 - of_int (60 * \<lfloor>ms / 3600000\<rfloor>)"
    by (simp add: js_rem_def t field_simps)
  then have "\<lfloor>js_rem ms 3600000 / 60000\<rfloor> = \<lfloor>ms / 60000\<rfloor> - 60 * \<lfloor>ms / 3600000\<rfloor>"
    by (simp only: floor_diff_of_int)
  also have "\<dots> = \<lfloor>ms / 60000\<rfloor> mod 60"
    unfolding h by (simp add: minus_mult_div_eq_mod)
  finally show ?thesis .
qed

lemma scenario_formatDuration_nonneg:
  assumes "0 \<le> ms"
  shows "scenario_formatDuration ms =
     (if 3600000 \<le> ms
      then show_int \<lfloor>ms / 3600000\<rfloor> @ ''h '' @ show_int (\<lfloor>ms / 60000\<rfloor> mod 60) @ ''m''
      else if 60000 \<le> ms then show_int \<lfloor>ms / 60000\<rfloor> @ ''m''
      else ''<1m'')"
proof -
  have lt: "\<lfloor>ms / 60000\<rfloor> mod 60 = \<lfloor>ms / 60000\<rfloor>" if "\<not> 3600000 \<le> ms"
  proof -
    have "\<lfloor>ms / 60000\<rfloor> < 60"
      using that by (simp add: floor_less_iff)
    moreover have "0 \<le> \<lfloor>ms / 60000\<rfloor>" using assms by simp
    ultimately show ?thesis by simp
  qed
  have "scenario_formatDuration ms =
     (let hours = \<lfloor>ms / 3600000\<rfloor>; minutes = \<lfloor>ms / 60000\<rfloor> mod 60
      in if hours > 0 then show_int hours @ ''h '' @ show_int minutes @ ''m''
         else if minutes > 0 then show_int minutes @ ''m'' else ''<1m'')"
    using scenario_minutes [OF assms] by (simp add: scenario_formatDuration_def)
  then show ?thesis
    by (auto simp: Let_def floor_pos_iff lt)
qed

text \<open>
  Claim C9, as the code has it.  For a non-negative number of milliseconds,
  \<open>formatDuration\<close> of prediction-utils returns \<open>Xd Yh\<close> from one day on, else
  \<open>Xh Ym\<close> from one hour on, else \<open>Xm\<close> from one minute on, else the seconds as
  \<open>Xs\<close>; \<open>formatDuration\<close> of scenario-utils has no day form: it returns
  \<open>Xh Ym\<close> from one hour on (X counts all the hours), else \<open>Xm\<close> from one minute
  on, else \<open><1m\<close>.
\<close>

theorem formatDuration_thresholds:
  assumes "0 \<le> ms"
  shows "formatDuration ms =
     (if 86400000 \<le> ms
      then show_int \<lfloor>ms / 86400000\<rfloor> @ ''d '' @ show_int (\<lfloor>ms / 3600000\<rfloor> mod 24) @ ''h''
      else if 3600000 \<le> ms
      then show_int \<lfloor>ms / 3600000\<rfloor> @ ''h '' @ show_int (\<lfloor>ms / 60000\<rfloor> mod 60) @ ''m''
      else if 60000 \<le> ms then show_int \<lfloor>ms / 60000\<rfloor> @ ''m''
      else show_int \<lfloor>ms / 1000\<rfloor> @ ''s'')
   \<and> scenario_formatDuration ms =
     (if 3600000 \<le> ms
      then show_int \<lfloor>ms / 3600000\<rfloor> @ ''h '' @ show_int (\<lfloor>ms / 60000\<rfloor> mod 60) @ ''m''
      else if 60000 \<le> ms then show_int \<lfloor>ms / 60000\<rfloor> @ ''m''
      else ''<1m'')"
  using formatDuration_nonneg [OF assms] scenario_formatDuration_nonneg [OF assms]
  by (rule conjI)

theorem formatDuration_thresholds_witness:
  "(0::real) \<le> 93784000
   \<and> formatDuration 93784000 = ''1d 2h''
   \<and> scenario_formatDuration 93784000 = ''26h 3m''"
proof -
  have h: "(0::real) \<le> 93784000" by simp
  show ?thesis
    using formatDuration_thresholds [OF h]
    by (simp add: show_int_def digit_char_def)
qed

text \<open>
  The claim as written has every duration of one day or more rendered with a day
  component.  \<open>formatDuration\<close> of scenario-utils renders exactly one day as
  \<open>24h 0m\<close>.
\<close>

theorem scenario_formatDuration_one_day_counterexample:
  "scenario_formatDuration 86400000 = ''24h 0m''
   \<and> CHR ''d'' \<notin> set (scenario_formatDuration 86400000)"
  by (simp add: scenario_formatDuration_def js_rem_def js_trunc_def show_int_def digit_char_def)

text \<open>The forms below one day, evaluated with both formatters.\<close>

lemma formatDuration_examples:
  "formatDuration 8040000 = ''2h 14m'' \<and> scenario_formatDuration 8040000 = ''2h 14m''
   \<and> formatDuration 2220000 = ''37m'' \<and> scenario_formatDuration 2220000 = ''37m''
   \<and> formatDuration 42000 = ''42s'' \<and> scenario_formatDuration 42000 = ''<1m''"
  by (simp add: formatDuration_def scenario_formatDuration_def js_rem_def js_trunc_def
        show_int_def digit_char_def)

subsection \<open>Velocity\<close>

text \<open>
  Claim C10.  With a window of 0 days the completed-task count and the completed-objective
  count are divided by zero: \<open>tasksPerDay\<close> and \<open>objectivesPerWeek\<close> are NaN when the
  divided count is 0 and Infinity otherwise, never a finite number.  Only the average task
  duration is guarded: it is 0 when the window holds no completed task.
\<close>

theorem calculateVelocity_zero_window:
  "tasksPerDay (calculateVelocity now objectives (Some 0)) =
     (if recentCompletedTasks now objectives 0 = [] then NaN else PosInfinity)
   \<and> objectivesPerWeek (calculateVelocity now objectives (Some 0)) =
     (if filter (\<lambda>obj. obj_status obj = ObjectiveCompleted) (recentObjectives now objectives 0) = []
      then NaN else PosInfinity)
   \<and> (\<forall>r. tasksPerDay (calculateVelocity now objectives (Some 0)) \<noteq> Num r)
   \<and> (\<forall>r. objectivesPerWeek (calculateVelocity now objectives (Some 0)) \<noteq> Num r)
   \<and> avgTaskDuration (calculateVelocity now objectives (Some days)) =
     (if recentCompletedTasks now objectives days = [] then 0
      else foldl (\<lambda>sum t. sum + taskDuration t) 0 (recentCompletedTasks now objectives days)
           / real (length (recentCompletedTasks now objectives days)))"
  by (simp add: calculateVelocity_def Let_def)

text \<open>An empty list of objectives with the windows 7 and 0, and one completed objective.\<close>

lemma calculateVelocity_examples:
  "calculateVelocity 1000 [] (Some 7) =
     \<lparr> tasksPerDay = Num 0, objectivesPerWeek = Num 0, avgTaskDuration = 0 \<rparr>
   \<and> calculateVelocity 1000 [] (Some 0) =
     \<lparr> tasksPerDay = NaN, objectivesPerWeek = NaN, avgTaskDuration = 0 \<rparr>
   \<and> calculateVelocity 1000
       [\<lparr> obj_id = ''o1'', obj_title = ''Ship'', description = [],
          tasks = [Task ''h1'' ''abd'' Completed (Some 4) 1000 (Some 61000) None None],
          obj_status = ObjectiveCompleted, obj_createdAt = 1000, agentRole = None \<rparr>] (Some 0) =
     \<lparr> tasksPerDay = PosInfinity, objectivesPerWeek = PosInfinity, avgTaskDuration = 60000 \<rparr>"
  by (simp add: calculateVelocity_def recentCompletedTasks_def recentObjectives_def
        completedWithTiming_def truthy_int_def taskDuration_def)


subsection \<open>Scenario operations\<close>

lemma getTask_append: "getTask h r = Some t \<Longrightarrow> getTask (h @ xs) r = Some t"
  by (auto simp: getTask_def getObject_def nth_append split: if_splits option.splits object.splits)

lemma those_Some: "those (map Some ys) = Some ys"
  by (induction ys) simp_all

lemma those_eq_Some: "those xs = Some ys \<Longrightarrow> xs = map Some ys"
proof (induction xs arbitrary: ys)
  case Nil
  then show ?case by simp
next
  case (Cons x xs)
  then show ?case
    by (cases x; cases "those xs") auto
qed

lemma those_map_Some: "those (map f xs) = Some ys \<longleftrightarrow> map f xs = map Some ys"
  using those_eq_Some [of "map f xs" ys] those_Some [of ys] by auto

lemma readTasks_Some: "readTasks h rs = Some ts \<longleftrightarrow> map (getTask h) rs = map Some ts"
  by (simp add: readTasks_def those_map_Some)

lemma readTasks_append_store:
  assumes "readTasks h rs = Some ts"
  shows "readTasks (h @ xs) rs = Some ts"
proof -
  have "map (getTask h) rs = map Some ts"
    using assms by (simp add: readTasks_Some)
  then have "map (getTask (h @ xs)) rs = map Some ts"
  proof (induction rs arbitrary: ts)
    case Nil
    then show ?case by simp
  next
    case (Cons r rs)
    then show ?case by (cases ts) (auto simp: getTask_append)
  qed
  then show ?thesis by (simp add: readTasks_Some)
qed

lemma readTasks_snoc:
  assumes "readTasks h rs = Some ts" and "getTask h r = Some t"
  shows "readTasks h (rs @ [r]) = Some (ts @ [t])"
  using assms by (simp add: readTasks_Some)

lemma addTaskToScenario_result:
  assumes s: "getScenario h scenario = Some s"
    and ob: "getObjective h (modifiedObjective s) = Some ob"
    and rs: "getTaskArray h (tasks ob) = Some rs"
    and ts: "readTasks h rs = Some ts"
    and ms: "getModifications h (modifications s) = Some ms"
    and t: "getTask h task = Some t"
  shows "addTaskToScenario now h scenario task hist =
     Some (h @
       [ScenarioObject (s\<lparr>modifiedObjective := length h + 2, prediction := length h + 3,
                          modifications := length h + 4\<rparr>),
        TaskArray (rs @ [task]),
        ObjectiveObject (ob\<lparr>tasks := length h + 1\<rparr>),
        PredictionObject (predictObjectiveCompletion now
          \<lparr> obj_id = obj_id ob, obj_title = obj_title ob, description = description ob,
            tasks = ts @ [t], obj_status = obj_status ob, obj_createdAt = obj_createdAt ob,
            agentRole = agentRole ob \<rparr> hist),
        ModificationArray (ms @
          [\<lparr> mod_type = Add_task, mod_description = ''Added task: '' @ title t,
             mod_taskId = Some (task_id t), details = TaskDetails task \<rparr>])],
       length h)"
proof -
  have v: "modifiedObjective s < length h" "tasks ob < length h" "modifications s < length h"
      "task < length h" "scenario < length h"
    using s ob rs ms t
    by (auto simp: getScenario_def getObjective_def getTaskArray_def getModifications_def getTask_def getObject_def
        split: if_splits option.splits object.splits)
  have rt: "readTasks (h @ xs) (rs @ [task]) = Some (ts @ [t])" for xs
    using readTasks_snoc [OF readTasks_append_store [OF ts] getTask_append [OF t]] .
  show ?thesis
    using s ob rs ms t v
    apply (simp add: addTaskToScenario_def alloc_def updateScenario_def getScenario_def
        getObjective_def getTaskArray_def getModifications_def getTask_def getObject_def
        nth_append readObjective_def)
    apply (simp add: rt[of "[a,b,c]" for a b c, simplified] split: if_splits option.splits object.splits)
    done
qed


lemma getters_append:
  "getScenario h r = Some s \<Longrightarrow> getScenario (h @ xs) r = Some s"
  "getObjective h r = Some ob \<Longrightarrow> getObjective (h @ xs) r = Some ob"
  "getTaskArray h r = Some rs \<Longrightarrow> getTaskArray (h @ xs) r = Some rs"
  "getPrediction h r = Some p \<Longrightarrow> getPrediction (h @ xs) r = Some p"
  "getModifications h r = Some ms \<Longrightarrow> getModifications (h @ xs) r = Some ms"
  by (auto simp: getScenario_def getObjective_def getTaskArray_def getPrediction_def
        getModifications_def getObject_def nth_append split: if_splits)

lemma readObjective_append:
  "readObjective h r = Some ob \<Longrightarrow> readObjective (h @ xs) r = Some ob"
  by (auto simp: readObjective_def getters_append readTasks_append_store
        split: Option.bind_splits)

lemma readScenario_append:
  "readScenario h r = Some c \<Longrightarrow> readScenario (h @ xs) r = Some c"
  by (auto simp: readScenario_def getters_append readObjective_append
        split: Option.bind_splits)

lemma readScenario_parts:
  assumes "readScenario h r = Some c"
  obtains s ob rs where "getScenario h r = Some s" "scenarioFields c = s"
    "getObjective h (modifiedObjective s) = Some ob"
    "getTaskArray h (tasks ob) = Some rs"
    "readTasks h rs = Some (tasks (objectiveContents c))"
    "getPrediction h (prediction s) = Some (predictionContents c)"
    "getModifications h (modifications s) = Some (modificationLog c)"
    "objectiveContents c =
       \<lparr> obj_id = obj_id ob, obj_title = obj_title ob, description = description ob,
         tasks = tasks (objectiveContents c), obj_status = obj_status ob,
         obj_createdAt = obj_createdAt ob, agentRole = agentRole ob \<rparr>"
  using assms
  by (auto simp: readScenario_def readObjective_def split: Option.bind_splits)

text \<open>
  Claim C7.  Let \<open>scenarioA\<close> be a scenario in the store and \<open>task\<close> a task object.
  Then \<open>addTaskToScenario\<close> returns a new scenario object \<open>scenarioB\<close> in a store that
  extends the old one: every object that existed before the call is unchanged, and what
  \<open>scenarioA\<close> leads to (its fields, the tasks of its modified objective, its prediction
  and its modification log) reads as before.  \<open>scenarioB\<close> has the old tasks followed
  by the new one, a prediction of that objective, and the old log followed by one
  \<open>add_task\<close> entry.
\<close>

theorem addTaskToScenario_leaves_scenario_unchanged:
  assumes "readScenario h scenarioA = Some before"
    and "getTask h task = Some t"
  shows "\<exists>h' scenarioB after.
       addTaskToScenario now h scenarioA task hist = Some (h', scenarioB)
     \<and> take (length h) h' = h
     \<and> readScenario h' scenarioA = Some before
     \<and> scenarioB \<noteq> scenarioA
     \<and> readScenario h' scenarioB = Some after
     \<and> tasks (objectiveContents after) = tasks (objectiveContents before) @ [t]
     \<and> predictionContents after =
         predictObjectiveCompletion now (objectiveContents after) hist
     \<and> modificationLog after = modificationLog before @
         [\<lparr> mod_type = Add_task, mod_description = ''Added task: '' @ title t,
            mod_taskId = Some (task_id t), details = TaskDetails task \<rparr>]"
proof -
  from assms(1) obtain s ob rs where p:
    "getScenario h scenarioA = Some s"
    "getObjective h (modifiedObjective s) = Some ob"
    "getTaskArray h (tasks ob) = Some rs"
    "readTasks h rs = Some (tasks (objectiveContents before))"
    "getPrediction h (prediction s) = Some (predictionContents before)"
    "getModifications h (modifications s) = Some (modificationLog before)"
    "objectiveContents before =
       \<lparr> obj_id = obj_id ob, obj_title = obj_title ob, description = description ob,
         tasks = tasks (objectiveContents before), obj_status = obj_status ob,
         obj_createdAt = obj_createdAt ob, agentRole = agentRole ob \<rparr>"
    by (rule readScenario_parts)
  let ?ts = "tasks (objectiveContents before)"
  let ?objective = "\<lparr> obj_id = obj_id ob, obj_title = obj_title ob,
         description = description ob, tasks = ?ts @ [t], obj_status = obj_status ob,
         obj_createdAt = obj_createdAt ob, agentRole = agentRole ob \<rparr>"
  let ?entry = "\<lparr> mod_type = Add_task, mod_description = ''Added task: '' @ title t,
            mod_taskId = Some (task_id t), details = TaskDetails task \<rparr>"
  let ?new = "[ScenarioObject (s\<lparr>modifiedObjective := length h + 2, prediction := length h + 3,
                          modifications := length h + 4\<rparr>),
        TaskArray (rs @ [task]),
        ObjectiveObject (ob\<lparr>tasks := length h + 1\<rparr>),
        PredictionObject (predictObjectiveCompletion now ?objective hist),
        ModificationArray (modificationLog before @ [?entry])]"
  let ?after = "\<lparr> scenarioFields = s\<lparr>modifiedObjective := length h + 2,
                      prediction := length h + 3, modifications := length h + 4\<rparr>,
                  objectiveContents = ?objective,
                  predictionContents = predictObjectiveCompletion now ?objective hist,
                  modificationLog = modificationLog before @ [?entry] \<rparr>"
  have res: "addTaskToScenario now h scenarioA task hist = Some (h @ ?new, length h)"
    by (rule addTaskToScenario_result [OF p(1) p(2) p(3) p(4) p(6) assms(2)])
  have valid: "scenarioA < length h"
    using p(1) by (auto simp: getScenario_def getObject_def split: if_splits)
  have rt: "readTasks (h @ xs) (rs @ [task]) = Some (?ts @ [t])" for xs
    using readTasks_snoc [OF readTasks_append_store [OF p(4)] getTask_append [OF assms(2)]] .
  have after: "readScenario (h @ ?new) (length h) = Some ?after"
    by (simp add: readScenario_def readObjective_def getScenario_def getObjective_def
          getTaskArray_def getPrediction_def getModifications_def getObject_def nth_append rt)
  show ?thesis
    using res valid after readScenario_append [OF assms(1), of ?new]
    by (intro exI [of _ "h @ ?new"] exI [of _ "length h"] exI [of _ ?after]) simp
qed

text \<open>The example store holds a well-formed scenario at reference 0.\<close>

lemma readScenario_exampleStore: "readScenario exampleStore 0 = Some exampleContents"
  by (simp add: readScenario_def readObjective_def readTasks_def getScenario_def
        getObjective_def getTaskArray_def getTask_def getPrediction_def getModifications_def
        getObject_def)

lemma getTask_exampleStore:
  "getTask exampleStore 7 = Some (Task ''t2'' ''review'' Pending (Some 5) 9500 None None None)"
  by (simp add: getTask_def getObject_def)

theorem addTaskToScenario_leaves_scenario_unchanged_witness:
  "readScenario exampleStore 0 = Some exampleContents
   \<and> getTask exampleStore 7 = Some (Task ''t2'' ''review'' Pending (Some 5) 9500 None None None)
   \<and> (\<exists>h' scenarioB after.
         addTaskToScenario 9600 exampleStore 0 7 [] = Some (h', scenarioB)
       \<and> take (length exampleStore) h' = exampleStore
       \<and> readScenario h' 0 = Some exampleContents
       \<and> scenarioB \<noteq> 0
       \<and> readScenario h' scenarioB = Some after
       \<and> tasks (objectiveContents after) =
           [exampleTask, Task ''t2'' ''review'' Pending (Some 5) 9500 None None None])"
proof -
  obtain h' scenarioB after where
      "addTaskToScenario 9600 exampleStore 0 7 [] = Some (h', scenarioB)"
      "take (length exampleStore) h' = exampleStore"
      "readScenario h' 0 = Some exampleContents"
      "scenarioB \<noteq> 0"
      "readScenario h' scenarioB = Some after"
      "tasks (objectiveContents after) = tasks (objectiveContents exampleContents) @
         [Task ''t2'' ''review'' Pending (Some 5) 9500 None None None]"
    using addTaskToScenario_leaves_scenario_unchanged
      [OF readScenario_exampleStore getTask_exampleStore, of 9600 "[]"]
    by blast
  then show ?thesis
    using readScenario_exampleStore getTask_exampleStore
    by (intro conjI exI [of _ h'] exI [of _ scenarioB] exI [of _ after]) simp_all
qed

lemma findIndex_none: "\<forall>x \<in> set xs. \<not> P x \<Longrightarrow> findIndex P xs = - 1"
  by (induction xs) simp_all

lemma findIndex_lower: "- 1 \<le> findIndex P xs"
  by (induction xs) (simp_all add: Let_def)

lemma findIndex_found:
  "findIndex P xs \<noteq> - 1 \<Longrightarrow>
     nat (findIndex P xs) < length xs \<and> P (xs ! nat (findIndex P xs))"
proof (induction xs)
  case Nil
  then show ?case by simp
next
  case (Cons x xs)
  show ?case
  proof (cases "P x")
    case True
    then show ?thesis by simp
  next
    case False
    with Cons.prems have ne: "findIndex P xs \<noteq> - 1"
      by (simp add: Let_def split: if_splits)
    moreover have "0 \<le> findIndex P xs"
      using ne findIndex_lower [of P xs] by linarith
    ultimately show ?thesis
      using Cons.IH False by (simp add: Let_def nat_add_distrib)
  qed
qed

text \<open>
  Claim C8.  If no task of the scenario's modified objective has the id \<open>taskId\<close>, then
  \<open>modifyTaskPriority\<close> returns (it does not fail) the very scenario it was given, in a
  store where every object that existed before is unchanged: the scenario reads as before,
  with the same modified objective, the same prediction and the same modification log.
\<close>

theorem modifyTaskPriority_unknown_id:
  assumes "readScenario h scenario = Some before"
    and "taskId \<notin> set (map task_id (tasks (objectiveContents before)))"
  shows "\<exists>h'. modifyTaskPriority now h scenario taskId newPriority hist = Some (h', scenario)
           \<and> take (length h) h' = h
           \<and> readScenario h' scenario = Some before"
proof -
  from assms(1) obtain s ob rs where p:
    "getScenario h scenario = Some s"
    "getObjective h (modifiedObjective s) = Some ob"
    "getTaskArray h (tasks ob) = Some rs"
    "readTasks h rs = Some (tasks (objectiveContents before))"
    by (rule readScenario_parts)
  have idx: "findIndex (\<lambda>t. task_id t = taskId) (tasks (objectiveContents before)) = - 1"
    using assms(2) by (intro findIndex_none) auto
  have valid: "scenario < length h" "modifiedObjective s < length h" "tasks ob < length h"
    using p
    by (auto simp: getScenario_def getObjective_def getTaskArray_def getObject_def
          split: if_splits)
  have "modifyTaskPriority now h scenario taskId newPriority hist =
          Some (h @ [ScenarioObject s], scenario)"
    using p valid idx readTasks_append_store [OF p(4), of "[ScenarioObject s]"]
    by (simp add: modifyTaskPriority_def alloc_def getScenario_def getObjective_def
          getTaskArray_def getObject_def nth_append)
  then show ?thesis
    using readScenario_append [OF assms(1), of "[ScenarioObject s]"] by simp
qed

theorem modifyTaskPriority_unknown_id_witness:
  "readScenario exampleStore 0 = Some exampleContents
   \<and> ''nonexistent-id'' \<notin> set (map task_id (tasks (objectiveContents exampleContents)))
   \<and> (\<exists>h'. modifyTaskPriority 9600 exampleStore 0 ''nonexistent-id'' 7 [] = Some (h', 0)
           \<and> take (length exampleStore) h' = exampleStore
           \<and> readScenario h' 0 = Some exampleContents)"
proof -
  have ids: "''nonexistent-id'' \<notin> set (map task_id (tasks (objectiveContents exampleContents)))"
    by simp
  show ?thesis
    using readScenario_exampleStore ids
      modifyTaskPriority_unknown_id [OF readScenario_exampleStore ids, of 9600 7 "[]"]
    by blast
qed


text \<open>
  With the id of a task of the scenario, the priority is changed in a copy: the store
  gains a scenario, a task array, a task, an objective, a prediction and a log, and the
  result is the new scenario.
\<close>

lemma modifyTaskPriority_example:
  "modifyTaskPriority 9600 exampleStore 0 ''t1'' 2 [] =
     Some (exampleStore @
       [ScenarioObject (exampleScenario\<lparr>modifiedObjective := 13, prediction := 14,
                                        modifications := 15\<rparr>),
        TaskArray [12],
        TaskObject (Task ''t1'' ''abc'' Pending (Some 2) 5000 None None None),
        ObjectiveObject \<lparr> obj_id = ''o1'', obj_title = ''Ship'', description = [], tasks = 11,
          obj_status = Active, obj_createdAt = 4000, agentRole = None \<rparr>,
        PredictionObject (predictObjectiveCompletion 9600
          \<lparr> obj_id = ''o1'', obj_title = ''Ship'', description = [],
            tasks = [Task ''t1'' ''abc'' Pending (Some 2) 5000 None None None],
            obj_status = Active, obj_createdAt = 4000, agentRole = None \<rparr> []),
        ModificationArray
          [\<lparr> mod_type = Change_priority,
             mod_description = ''Changed priority of '' @ [CHR 0x22] @ ''abc'' @ [CHR 0x22]
                @ '' from 4 to 2'',
             mod_taskId = Some ''t1'', details = PriorityDetails 4 2 \<rparr>]],
       10)"
  by (simp add: modifyTaskPriority_def alloc_def updateScenario_def readObjective_def
        readTasks_def getScenario_def getObjective_def getTaskArray_def getTask_def
        getModifications_def getObject_def withPriority_def truthy_int_def show_int_def
        digit_char_def)

end
